theory Spec2Isabelle
  imports Complex_Main
begin

section \<open>Python and numpy values\<close>

text \<open>
  The simulator of \<^verbatim>\<open>src/environments/finite_diff_wave.py\<close> computes on Python floats
  and one-dimensional numpy arrays. Floats are modelled as \<^typ>\<open>real\<close> (rounding, overflow
  and the values inf and nan are outside the model), Python integers as \<^typ>\<open>int\<close>, and
  a one-dimensional array as a list. Every exception the code can raise is a value of
  \<open>error\<close>, and a computation that may raise returns \<open>error + 'a\<close>.
\<close>

datatype error = ZeroDivisionError | IndexError | ValueError

definition bindE :: "error + 'a \<Rightarrow> ('a \<Rightarrow> error + 'b) \<Rightarrow> error + 'b" where
  "bindE r f = (case r of Inl e \<Rightarrow> Inl e | Inr v \<Rightarrow> f v)"

text \<open>Division of two Python numbers: a zero divisor raises.\<close>

definition py_div :: "real \<Rightarrow> real \<Rightarrow> error + real" where
  "py_div a b = (if b = 0 then Inl ZeroDivisionError else Inr (a / b))"

text \<open>Indexing with a Python integer: a negative index counts from the end.\<close>

definition py_index :: "nat \<Rightarrow> int \<Rightarrow> error + nat" where
  "py_index len i =
     (let j = (if i < 0 then int len + i else i)
      in if 0 \<le> j \<and> j < int len then Inr (nat j) else Inl IndexError)"

definition py_get :: "'a list \<Rightarrow> int \<Rightarrow> error + 'a" where
  "py_get xs i = bindE (py_index (length xs) i) (\<lambda>j. Inr (xs ! j))"

definition py_set :: "'a list \<Rightarrow> int \<Rightarrow> 'a \<Rightarrow> error + 'a list" where
  "py_set xs i v = bindE (py_index (length xs) i) (\<lambda>j. Inr (xs[j := v]))"

text \<open>A slice \<^verbatim>\<open>xs[lo:hi]\<close>: both bounds are clamped to the array.\<close>

definition py_slice_bound :: "nat \<Rightarrow> int \<Rightarrow> nat" where
  "py_slice_bound len i = (if i < 0 then nat (int len + i) else min len (nat i))"

definition py_slice :: "'a list \<Rightarrow> int \<Rightarrow> int \<Rightarrow> 'a list" where
  "py_slice xs lo hi =
     (let a = py_slice_bound (length xs) lo; b = py_slice_bound (length xs) hi
      in take (b - a) (drop a xs))"

text \<open>
  \<^verbatim>\<open>np.linspace(start, stop, num)\<close>: \<open>num\<close> evenly spaced samples with both end points;
  a negative \<open>num\<close> raises; one sample is \<open>start\<close> alone.
\<close>

definition np_linspace :: "real \<Rightarrow> real \<Rightarrow> int \<Rightarrow> error + real list" where
  "np_linspace start stop num =
     (if num < 0 then Inl ValueError
      else if num = 1 then Inr [start]
      else Inr (map (\<lambda>k. start + real k * ((stop - start) / real_of_int (num - 1)))
                  [0..<nat num]))"

definition np_zeros :: "int \<Rightarrow> error + real list" where
  "np_zeros num = (if num < 0 then Inl ValueError else Inr (replicate (nat num) 0))"

text \<open>
  An elementwise operation on two arrays broadcasts: equal lengths pair up, an array of
  length one is stretched, and any other pair of lengths raises.
\<close>

definition np_binop :: "(real \<Rightarrow> real \<Rightarrow> real) \<Rightarrow> real list \<Rightarrow> real list \<Rightarrow> error + real list" where
  "np_binop f a b =
     (if length a = length b then Inr (map2 f a b)
      else if length a = 1 then Inr (map (f (hd a)) b)
      else if length b = 1 then Inr (map (\<lambda>v. f v (hd b)) a)
      else Inl ValueError)"

text \<open>The assignment \<^verbatim>\<open>dst[:] = src\<close> broadcasts \<open>src\<close> to the length of \<open>dst\<close>.\<close>

definition np_assign_all :: "real list \<Rightarrow> real list \<Rightarrow> error + real list" where
  "np_assign_all dst src =
     (if length src = length dst then Inr src
      else if length src = 1 then Inr (replicate (length dst) (hd src))
      else Inl ValueError)"

text \<open>A \<^verbatim>\<open>for\<close> loop over a list of indices that threads the mutated array.\<close>

fun for_each :: "('i \<Rightarrow> 'a \<Rightarrow> error + 'a) \<Rightarrow> 'i list \<Rightarrow> 'a \<Rightarrow> error + 'a" where
  "for_each body [] acc = Inr acc"
| "for_each body (i # is) acc = bindE (body i acc) (for_each body is)"

section \<open>The configuration and the state of \<open>Wave1D\<close>\<close>

record config =
  cfg_time_interval :: real
  cfg_wave_speed :: real
  cfg_system_length :: real
  cfg_num_lattice_points :: int
  cfg_num_force_points :: int
  cfg_force_width :: real

record wave1d =
  dt :: real
  c_speed :: real
  L :: real
  Nx :: int
  num_force_points :: int
  force_locations :: "real list"
  force_width :: real
  dx :: real
  x_mesh :: "real list"
  C :: real
  C2 :: real
  height :: "real list"
  height_n :: "real list"
  height_nm1 :: "real list"
  height_traj :: "real list list"
  action_traj :: "real list list"
  t :: real
  n :: int
  force_vals :: "real list"

text \<open>
  The two initial conditions, lines 60 and 63: attributes that the constructor sets to
  constant functions and that nothing reassigns.
\<close>

definition Velocity_0 :: "real \<Rightarrow> real" where
  "Velocity_0 x = 0"

definition Initial_Height :: "real \<Rightarrow> real" where
  "Initial_Height x = 0"

section \<open>The operations\<close>

text \<open>
  \<open>impulse_term\<close>, line 140: the scalar \<open>x\<close> minus the array of force locations, the
  Gaussian of each entry, the elementwise product with \<open>force_vals\<close>, which broadcasts or
  raises, and \<^verbatim>\<open>np.sum\<close>. The division by \<open>force_width\<close> is numpy's: it raises nothing.
  At \<open>force_width = 0\<close> numpy's quotient is \<open>-inf\<close> or \<open>nan\<close>, which the reals lack: there the
  model records only that nothing is raised, and the number it returns is not the code's.
\<close>

definition impulse_term :: "wave1d \<Rightarrow> real \<Rightarrow> error + real" where
  "impulse_term self x =
     bindE (np_binop (*) (force_vals self)
              (map (\<lambda>loc. exp (- 0.5 * (x - loc)\<^sup>2 / force_width self)) (force_locations self)))
       (\<lambda>prod. Inr (sum_list prod))"

text \<open>
  \<open>take_in_action\<close>, line 129: the object keeps its own copy of the vector; no statement
  of the method can raise for a vector of numbers.
\<close>

definition take_in_action :: "wave1d \<Rightarrow> real list \<Rightarrow> error + wave1d" where
  "take_in_action self action = Inr (self\<lparr>force_vals := action\<rparr>)"

text \<open>The first loop of \<open>reset\<close>, lines 89-90.\<close>

definition reset_initial_body :: "wave1d \<Rightarrow> int \<Rightarrow> real list \<Rightarrow> error + real list" where
  "reset_initial_body self i hn =
     bindE (py_get (x_mesh self) i) (\<lambda>xi. py_set hn i (Initial_Height xi))"

text \<open>
  The special first step, lines 93-96: the three statements of the body, each reading what
  the one before wrote to \<open>height[i]\<close>.
\<close>

definition reset_first_body :: "wave1d \<Rightarrow> int \<Rightarrow> real list \<Rightarrow> error + real list" where
  "reset_first_body self i h =
     bindE (py_get (height_n self) i) (\<lambda>u.
     bindE (py_get (x_mesh self) i) (\<lambda>xi.
     bindE (py_set h i (u + dt self * Velocity_0 xi)) (\<lambda>h1.
     bindE (py_get h1 i) (\<lambda>cur1.
     bindE (py_get (height_n self) (i - 1)) (\<lambda>ul.
     bindE (py_get (height_n self) i) (\<lambda>um.
     bindE (py_get (height_n self) (i + 1)) (\<lambda>ur.
     bindE (py_set h1 i (cur1 + 0.5 * C2 self * (ul - 2 * um + ur))) (\<lambda>h2.
     bindE (py_get h2 i) (\<lambda>cur2.
     bindE (py_get (x_mesh self) i) (\<lambda>xi2.
     bindE (impulse_term self xi2) (\<lambda>imp.
     py_set h2 i (cur2 + 0.5 * (dt self)\<^sup>2 * imp))))))))))))"

definition reset :: "wave1d \<Rightarrow> error + wave1d" where
  "reset self0 =
     (let self1 = self0\<lparr>t := 0, n := 0\<rparr> in
      bindE (np_zeros (num_force_points self1)) (\<lambda>z.
      let self2 = self1\<lparr>force_vals := z\<rparr> in
      bindE (for_each (reset_initial_body self2) [0..Nx self2] (height_n self2)) (\<lambda>hn.
      let self3 = self2\<lparr>height_n := hn\<rparr> in
      bindE (for_each (reset_first_body self3) [1..Nx self3 - 1] (height self3)) (\<lambda>h.
      bindE (py_set h 0 0) (\<lambda>h0.
      bindE (py_set h0 (Nx self3) 0) (\<lambda>hN.
      let self4 = self3\<lparr>height := hN\<rparr> in
      bindE (np_assign_all (height_nm1 self4) (height_n self4)) (\<lambda>nm1.
      let self5 = self4\<lparr>height_nm1 := nm1\<rparr> in
      bindE (np_assign_all (height_n self5) (height self5)) (\<lambda>hn'.
      Inr (self5\<lparr>height_n := hn'\<rparr>)))))))))"

text \<open>The body of the loop of \<open>single_step\<close>, lines 112-114.\<close>

definition single_step_body :: "wave1d \<Rightarrow> int \<Rightarrow> real list \<Rightarrow> error + real list" where
  "single_step_body self i h =
     bindE (py_get (height_nm1 self) i) (\<lambda>v.
     bindE (py_get (height_n self) i) (\<lambda>u.
     bindE (py_set h i (- v + 2 * u)) (\<lambda>h1.
     bindE (py_get h1 i) (\<lambda>cur1.
     bindE (py_get (height_n self) (i - 1)) (\<lambda>ul.
     bindE (py_get (height_n self) i) (\<lambda>um.
     bindE (py_get (height_n self) (i + 1)) (\<lambda>ur.
     bindE (py_set h1 i (cur1 + C2 self * (ul - 2 * um + ur))) (\<lambda>h2.
     bindE (py_get h2 i) (\<lambda>cur2.
     bindE (py_get (x_mesh self) i) (\<lambda>xi.
     bindE (impulse_term self xi) (\<lambda>imp.
     py_set h2 i (cur2 + (dt self)\<^sup>2 * imp))))))))))))"

definition single_step :: "wave1d \<Rightarrow> error + wave1d" where
  "single_step self0 =
     (let self1 = self0\<lparr>t := t self0 + dt self0\<rparr>;
          self2 = self1\<lparr>n := n self1 + 1\<rparr> in
      bindE (for_each (single_step_body self2) [1..Nx self2 - 1] (height self2)) (\<lambda>h.
      bindE (py_set h 0 0) (\<lambda>h0.
      bindE (py_set h0 (Nx self2) 0) (\<lambda>hN.
      let self3 = self2\<lparr>height := hN\<rparr> in
      bindE (np_assign_all (height_nm1 self3) (height_n self3)) (\<lambda>nm1.
      let self4 = self3\<lparr>height_nm1 := nm1\<rparr> in
      bindE (np_assign_all (height_n self4) (height self4)) (\<lambda>hn'.
      Inr (self4\<lparr>height_n := hn'\<rparr>)))))))"

text \<open>
  The constructor, lines 31-74. The configuration values are Python numbers, so the two
  divisions of lines 45 and 51 raise on a zero divisor. The attributes \<open>t\<close>, \<open>n\<close> and
  \<open>force_vals\<close> do not exist before the call of \<open>reset\<close> in line 74, which writes them
  before it reads them; the record holds 0, 0 and the empty array until then.
\<close>

definition init :: "config \<Rightarrow> error + wave1d" where
  "init config =
     (let dt0 = cfg_time_interval config;
          c0 = cfg_wave_speed config;
          L0 = cfg_system_length config;
          Nx0 = cfg_num_lattice_points config;
          nfp = cfg_num_force_points config in
      bindE (np_linspace 0 L0 (nfp + 2)) (\<lambda>pts.
      let locs = py_slice pts 1 (nfp + 1);
          width = cfg_force_width config * L0 in
      bindE (py_div L0 (real_of_int Nx0)) (\<lambda>dx0.
      bindE (np_linspace 0 L0 (Nx0 + 1)) (\<lambda>mesh.
      bindE (py_div (c0 * dt0) dx0) (\<lambda>courant.
      bindE (py_get mesh 1) (\<lambda>x1.
      bindE (py_get mesh 0) (\<lambda>x0.
      bindE (np_zeros (Nx0 + 1)) (\<lambda>h.
      bindE (np_zeros (Nx0 + 1)) (\<lambda>hn.
      bindE (np_zeros (Nx0 + 1)) (\<lambda>hnm1.
      reset \<lparr>dt = dt0, c_speed = c0, L = L0, Nx = Nx0, num_force_points = nfp,
             force_locations = locs, force_width = width, dx = x1 - x0, x_mesh = mesh,
             C = courant, C2 = courant\<^sup>2, height = h, height_n = hn, height_nm1 = hnm1,
             height_traj = [], action_traj = [], t = 0, n = 0, force_vals = []\<rparr>))))))))))"

text \<open>
  \<open>get_observation\<close>, lines 167-171: an array of shape \<open>(1, Nx + 1, 3)\<close> as a list of
  planes, each a list of rows of three channels; \<^verbatim>\<open>observation[0,:,k] = arr\<close> writes
  column \<open>k\<close> of plane 0 and broadcasts \<open>arr\<close> to the number of rows.
\<close>

type_synonym observation = "real list list list"

definition np_zeros3 :: "int \<Rightarrow> int \<Rightarrow> int \<Rightarrow> error + observation" where
  "np_zeros3 a b c =
     (if a < 0 \<or> b < 0 \<or> c < 0 then Inl ValueError
      else Inr (replicate (nat a) (replicate (nat b) (replicate (nat c) 0))))"

definition assign_column :: "real list list \<Rightarrow> nat \<Rightarrow> real list \<Rightarrow> error + real list list" where
  "assign_column plane k arr =
     bindE (np_assign_all (replicate (length plane) 0) arr) (\<lambda>vals.
     Inr (map2 (\<lambda>row v. row[k := v]) plane vals))"

definition get_observation :: "wave1d \<Rightarrow> error + observation" where
  "get_observation self =
     bindE (np_zeros3 1 (Nx self + 1) 3) (\<lambda>obs.
     bindE (py_get obs 0) (\<lambda>p.
     bindE (assign_column p 0 (height self)) (\<lambda>p0.
     bindE (assign_column p0 1 (height_n self)) (\<lambda>p1.
     bindE (assign_column p1 2 (height_nm1 self)) (\<lambda>p2.
     py_set obs 0 p2)))))"

text \<open>The channel \<^verbatim>\<open>observation[0,:,k]\<close> of an observation.\<close>

definition channel :: "observation \<Rightarrow> nat \<Rightarrow> real list" where
  "channel obs k = map (\<lambda>row. row ! k) (obs ! 0)"

text \<open>
  \<open>energy\<close>, lines 181-188. \<^verbatim>\<open>np.gradient\<close> and scipy's \<^verbatim>\<open>simps\<close> are library
  functions outside the repository: they are parameters of the model. The unused
  \<open>space_term\<close> of line 184 is computed as the code computes it, since it could raise.
  The method assigns to no attribute of \<open>self\<close>, so the model returns the value alone.
\<close>

type_synonym gradient_fn = "real list \<Rightarrow> real list \<Rightarrow> error + real list"
type_synonym quadrature_fn = "real list \<Rightarrow> real list \<Rightarrow> error + real"

definition energy :: "gradient_fn \<Rightarrow> quadrature_fn \<Rightarrow> wave1d \<Rightarrow> error + real" where
  "energy np_gradient simps self =
     bindE (np_binop (-) (height self) (height_nm1 self)) (\<lambda>diff.
     let dudt = map (\<lambda>v. v / dt self) diff in
     bindE (np_gradient (height self) (x_mesh self)) (\<lambda>dudx.
     bindE (np_gradient dudx (x_mesh self)) (\<lambda>d2udx2.
     bindE (np_binop (*) (map uminus (height self)) d2udx2) (\<lambda>space_term.
     bindE (np_binop (+) (map (\<lambda>v. v\<^sup>2) dudt) (map (\<lambda>v. (C self)\<^sup>2 * v\<^sup>2) dudx))
       (\<lambda>energy_density0.
     bindE (np_binop (+) energy_density0 (map (\<lambda>v. v\<^sup>2) (height self))) (\<lambda>energy_density.
     bindE (simps energy_density (x_mesh self)) (\<lambda>integral.
     Inr (0.5 * integral))))))))"

section \<open>Runs of the simulator\<close>

text \<open>
  The states an owner of the object can see: the constructed one, and those after a call
  of \<open>reset\<close>, \<open>single_step\<close> or \<open>take_in_action\<close> that returned.
\<close>

inductive reachable :: "config \<Rightarrow> wave1d \<Rightarrow> bool" for config :: config where
  constructed: "init config = Inr s \<Longrightarrow> reachable config s"
| after_reset: "reachable config s \<Longrightarrow> reset s = Inr s' \<Longrightarrow> reachable config s'"
| after_single_step: "reachable config s \<Longrightarrow> single_step s = Inr s' \<Longrightarrow> reachable config s'"
| after_take_in_action:
    "reachable config s \<Longrightarrow> take_in_action s action = Inr s' \<Longrightarrow> reachable config s'"

text \<open>The constraints the constructor's docstring puts on the configuration.\<close>

definition valid_config :: "config \<Rightarrow> bool" where
  "valid_config config \<longleftrightarrow>
     0 < cfg_time_interval config \<and> 0 < cfg_wave_speed config \<and>
     0 < cfg_system_length config \<and> 0 < cfg_num_lattice_points config \<and>
     0 < cfg_num_force_points config \<and> 0 < cfg_force_width config"

datatype call = Take_in_action "real list" | Single_step

fun do_call :: "wave1d \<Rightarrow> call \<Rightarrow> error + wave1d" where
  "do_call s (Take_in_action action) = take_in_action s action"
| "do_call s Single_step = single_step s"

text \<open>
  What a caller sees who reads \<open>get_observation\<close> after every call of a sequence; the
  run ends at the first call that raises.
\<close>

fun observations :: "wave1d \<Rightarrow> call list \<Rightarrow> (error + observation) list" where
  "observations s [] = []"
| "observations s (c # cs) =
     (case do_call s c of
        Inl e \<Rightarrow> [Inl e]
      | Inr s' \<Rightarrow> get_observation s' # observations s' cs)"

section \<open>Notions used to state the properties\<close>

text \<open>
  The configurations for which the constructor returns: at least one lattice interval, no
  negative number of force points and a length other than zero.
\<close>

definition constructible :: "config \<Rightarrow> bool" where
  "constructible config \<longleftrightarrow>
     1 \<le> cfg_num_lattice_points config \<and> 0 \<le> cfg_num_force_points config \<and>
     cfg_system_length config \<noteq> 0"

text \<open>
  Sample \<open>j + 1\<close> of the \<open>num_force_points + 2\<close> evenly spaced points over \<open>[0, L]\<close>, and
  sample \<open>k\<close> of the \<open>Nx + 1\<close> mesh points.
\<close>

definition force_site :: "config \<Rightarrow> nat \<Rightarrow> real" where
  "force_site config j =
     real (j + 1) * (cfg_system_length config / real_of_int (cfg_num_force_points config + 1))"

definition mesh_point :: "config \<Rightarrow> nat \<Rightarrow> real" where
  "mesh_point config k =
     real k * (cfg_system_length config / real_of_int (cfg_num_lattice_points config))"

text \<open>The rest configuration: the fields of the object written out, all heights zero.\<close>

definition rest_state :: "config \<Rightarrow> wave1d" where
  "rest_state config =
     \<lparr>dt = cfg_time_interval config, c_speed = cfg_wave_speed config,
      L = cfg_system_length config, Nx = cfg_num_lattice_points config,
      num_force_points = cfg_num_force_points config,
      force_locations = map (force_site config) [0..<nat (cfg_num_force_points config)],
      force_width = cfg_force_width config * cfg_system_length config,
      dx = mesh_point config 1 - mesh_point config 0,
      x_mesh = map (mesh_point config) [0..<Suc (nat (cfg_num_lattice_points config))],
      C = cfg_wave_speed config * cfg_time_interval config /
            (cfg_system_length config / real_of_int (cfg_num_lattice_points config)),
      C2 = (cfg_wave_speed config * cfg_time_interval config /
            (cfg_system_length config / real_of_int (cfg_num_lattice_points config)))\<^sup>2,
      height = replicate (Suc (nat (cfg_num_lattice_points config))) 0,
      height_n = replicate (Suc (nat (cfg_num_lattice_points config))) 0,
      height_nm1 = replicate (Suc (nat (cfg_num_lattice_points config))) 0,
      height_traj = [], action_traj = [], t = 0, n = 0,
      force_vals = replicate (nat (cfg_num_force_points config)) 0\<rparr>"

text \<open>
  What every state of a run has in common with the rest configuration: the fields that
  only the constructor writes. The invariant of a run adds the lengths of the three
  solution arrays, the equality of \<open>height_n\<close> and \<open>height\<close>, and the zero boundary.
\<close>

definition same_static :: "wave1d \<Rightarrow> wave1d \<Rightarrow> bool" where
  "same_static a b \<longleftrightarrow>
     dt a = dt b \<and> c_speed a = c_speed b \<and> L a = L b \<and> Nx a = Nx b \<and>
     num_force_points a = num_force_points b \<and> force_locations a = force_locations b \<and>
     force_width a = force_width b \<and> dx a = dx b \<and> x_mesh a = x_mesh b \<and>
     C a = C b \<and> C2 a = C2 b \<and> height_traj a = height_traj b \<and>
     action_traj a = action_traj b"

definition consistent :: "config \<Rightarrow> wave1d \<Rightarrow> bool" where
  "consistent config s \<longleftrightarrow>
     constructible config \<and> same_static s (rest_state config) \<and>
     length (height s) = Suc (nat (Nx s)) \<and> height_n s = height s \<and>
     length (height_nm1 s) = Suc (nat (Nx s)) \<and>
     height s ! 0 = 0 \<and> height s ! nat (Nx s) = 0 \<and>
     height_nm1 s ! 0 = 0 \<and> height_nm1 s ! nat (Nx s) = 0"

text \<open>
  The update of \<open>single_step\<close> at an interior index, on the time levels of the state
  before the call, and the state the call leaves when it returns. \<open>impulse_at\<close> is the
  value that \<open>impulse_term\<close> returns at a mesh point.
\<close>

definition leapfrog :: "wave1d \<Rightarrow> real \<Rightarrow> nat \<Rightarrow> real" where
  "leapfrog s imp i =
     - (height_nm1 s ! i) + 2 * height_n s ! i
     + C2 s * (height_n s ! (i - 1) - 2 * height_n s ! i + height_n s ! (i + 1))
     + (dt s)\<^sup>2 * imp"

definition impulse_at :: "wave1d \<Rightarrow> nat \<Rightarrow> real" where
  "impulse_at s i = projr (impulse_term s (x_mesh s ! i))"

definition stepped_height :: "wave1d \<Rightarrow> real list" where
  "stepped_height s =
     map (\<lambda>k. if k = 0 \<or> k = nat (Nx s) then 0 else leapfrog s (impulse_at s k) k)
       [0..<Suc (nat (Nx s))]"

definition stepped :: "wave1d \<Rightarrow> wave1d" where
  "stepped s = s\<lparr>t := t s + dt s, n := n s + 1, height := stepped_height s,
                 height_nm1 := height_n s, height_n := stepped_height s\<rparr>"

text \<open>
  One step under a forcing vector from the rest state: \<open>reset\<close>, then \<open>take_in_action\<close>,
  then \<open>single_step\<close>.
\<close>

definition forced_step :: "wave1d \<Rightarrow> real list \<Rightarrow> error + wave1d" where
  "forced_step s action =
     bindE (reset s) (\<lambda>r. bindE (take_in_action r action) single_step)"

text \<open>
  What \<open>energy\<close> needs of the two library functions: on two arrays of one length, at
  least two samples long, the gradient returns an array of that length and the quadrature
  returns a number.
\<close>

definition gradient_like :: "gradient_fn \<Rightarrow> bool" where
  "gradient_like g \<longleftrightarrow>
     (\<forall>f x. length f = length x \<and> 2 \<le> length f \<longrightarrow>
        (\<exists>d. g f x = Inr d \<and> length d = length f))"

definition quadrature_like :: "quadrature_fn \<Rightarrow> bool" where
  "quadrature_like q \<longleftrightarrow>
     (\<forall>y x. length y = length x \<and> 2 \<le> length y \<longrightarrow> (\<exists>v. q y x = Inr v))"

text \<open>
  The energy density of the specification at mesh index \<open>i\<close>, for a given spatial
  derivative \<open>dudx\<close>.
\<close>

definition energy_density_at :: "wave1d \<Rightarrow> real list \<Rightarrow> nat \<Rightarrow> real" where
  "energy_density_at s dudx i =
     ((height s ! i - height_nm1 s ! i) / dt s)\<^sup>2 + (C s)\<^sup>2 * (dudx ! i)\<^sup>2 + (height s ! i)\<^sup>2"

text \<open>
  An instance of the two library functions, after their documentation: the gradient with
  one-sided differences at the two ends and the second-order difference for uneven spacing
  inside, and the composite Simpson rule for uneven spacing, which for an even number of
  samples averages the two ways of closing the mesh with one trapezoid.
\<close>

definition gradient_model :: gradient_fn where
  "gradient_model f x =
     (if length x \<noteq> length f \<or> length f < 2 then Inl ValueError
      else Inr (map (\<lambda>i.
        if i = 0 then (f ! 1 - f ! 0) / (x ! 1 - x ! 0)
        else if i = length f - 1 then (f ! i - f ! (i - 1)) / (x ! i - x ! (i - 1))
        else (let hs = x ! i - x ! (i - 1); hd = x ! (i + 1) - x ! i
              in (hs\<^sup>2 * f ! (i + 1) + (hd\<^sup>2 - hs\<^sup>2) * f ! i - hd\<^sup>2 * f ! (i - 1)) /
                 (hs * hd * (hd + hs))))
        [0..<length f]))"

fun basic_simps :: "real list \<Rightarrow> real list \<Rightarrow> real" where
  "basic_simps (y0 # y1 # y2 # ys) (x0 # x1 # x2 # xs) =
     (let h0 = x1 - x0; h1 = x2 - x1; hsum = h0 + h1; hprod = h0 * h1; h0divh1 = h0 / h1
      in hsum / 6 * (y0 * (2 - 1 / h0divh1) + y1 * hsum * hsum / hprod + y2 * (2 - h0divh1)))
     + basic_simps (y2 # ys) (x2 # xs)"
| "basic_simps ys xs = 0"

definition simpson_model :: quadrature_fn where
  "simpson_model y x =
     (if length x \<noteq> length y then Inl ValueError
      else if length y = 0 then Inl IndexError
      else if even (length y) then
        Inr ((0.5 * (last x - last (butlast x)) * (last y + last (butlast y))
                + basic_simps (butlast y) (butlast x)
              + 0.5 * (x ! 1 - x ! 0) * (y ! 1 + y ! 0)
                + basic_simps (tl y) (tl x)) / 2)
      else Inr (basic_simps y x))"

text \<open>Concrete inputs: a configuration that meets the constraints, and one that does not.\<close>

definition example_config :: config where
  "example_config =
     \<lparr>cfg_time_interval = 1, cfg_wave_speed = 1, cfg_system_length = 4,
      cfg_num_lattice_points = 4, cfg_num_force_points = 3, cfg_force_width = 1\<rparr>"


text \<open>
  The rest state of \<open>example_config\<close> after \<open>take_in_action\<close> with the vector
  \<open>[1, 0, -1]\<close>, and with the vector \<open>[5]\<close>, which has one entry for three force points.
\<close>

definition example_forced :: wave1d where
  "example_forced = (rest_state example_config)\<lparr>force_vals := [1, 0, - 1]\<rparr>"

definition example_short :: wave1d where
  "example_short = (rest_state example_config)\<lparr>force_vals := [5]\<rparr>"

section \<open>The object on a heap of arrays\<close>

text \<open>
  A numpy array is a mutable object that several names can share, and the three solution
  arrays are written in place. To state what one instance owes to the rest of the program,
  the arrays are put at addresses of one heap, which the two instances and their caller
  share. An address below \<open>fresh\<close> is allocated; \<^verbatim>\<open>np.zeros\<close>, \<^verbatim>\<open>np.linspace\<close> and
  \<^verbatim>\<open>np.copy\<close> return a new array, at the address \<open>fresh\<close>.
\<close>

type_synonym ref = nat

record heap =
  cells :: "ref \<Rightarrow> real list"
  fresh :: ref

definition new_array :: "heap \<Rightarrow> real list \<Rightarrow> heap \<times> ref" where
  "new_array h xs = (h\<lparr>cells := (cells h)(fresh h := xs), fresh := Suc (fresh h)\<rparr>, fresh h)"

definition heap_get :: "heap \<Rightarrow> ref \<Rightarrow> int \<Rightarrow> error + real" where
  "heap_get h r i = py_get (cells h r) i"

definition heap_set :: "heap \<Rightarrow> ref \<Rightarrow> int \<Rightarrow> real \<Rightarrow> error + heap" where
  "heap_set h r i v =
     bindE (py_set (cells h r) i v) (\<lambda>xs. Inr (h\<lparr>cells := (cells h)(r := xs)\<rparr>))"

text \<open>The assignment \<^verbatim>\<open>dst[:] = src\<close> writes into the array that \<open>dst\<close> names.\<close>

definition heap_assign_all :: "heap \<Rightarrow> ref \<Rightarrow> ref \<Rightarrow> error + heap" where
  "heap_assign_all h dst src =
     bindE (np_assign_all (cells h dst) (cells h src))
       (\<lambda>xs. Inr (h\<lparr>cells := (cells h)(dst := xs)\<rparr>))"

text \<open>
  The attributes of an instance: numbers by value, arrays by address. \<open>view\<close> reads the
  arrays of an instance off the heap and gives the state of the sections above.
\<close>

record wave1d_obj =
  self_dt :: real
  self_c_speed :: real
  self_L :: real
  self_Nx :: int
  self_num_force_points :: int
  self_force_locations :: ref
  self_force_width :: real
  self_dx :: real
  self_x_mesh :: ref
  self_C :: real
  self_C2 :: real
  self_height :: ref
  self_height_n :: ref
  self_height_nm1 :: ref
  self_height_traj :: "real list list"
  self_action_traj :: "real list list"
  self_t :: real
  self_n :: int
  self_force_vals :: ref

definition view :: "heap \<Rightarrow> wave1d_obj \<Rightarrow> wave1d" where
  "view h self =
     \<lparr>dt = self_dt self, c_speed = self_c_speed self, L = self_L self, Nx = self_Nx self,
      num_force_points = self_num_force_points self,
      force_locations = cells h (self_force_locations self),
      force_width = self_force_width self, dx = self_dx self,
      x_mesh = cells h (self_x_mesh self), C = self_C self, C2 = self_C2 self,
      height = cells h (self_height self), height_n = cells h (self_height_n self),
      height_nm1 = cells h (self_height_nm1 self),
      height_traj = self_height_traj self, action_traj = self_action_traj self,
      t = self_t self, n = self_n self, force_vals = cells h (self_force_vals self)\<rparr>"

text \<open>The methods again, line by line, with every array read and write through the heap.\<close>

definition heap_impulse_term :: "heap \<Rightarrow> wave1d_obj \<Rightarrow> real \<Rightarrow> error + real" where
  "heap_impulse_term h self x =
     bindE (np_binop (*) (cells h (self_force_vals self))
              (map (\<lambda>loc. exp (- 0.5 * (x - loc)\<^sup>2 / self_force_width self))
                 (cells h (self_force_locations self))))
       (\<lambda>prod. Inr (sum_list prod))"

text \<open>\<open>take_in_action\<close>, line 129: \<^verbatim>\<open>np.copy\<close> allocates, and the attribute names the copy.\<close>

definition heap_take_in_action :: "heap \<Rightarrow> wave1d_obj \<Rightarrow> ref \<Rightarrow> error + heap \<times> wave1d_obj" where
  "heap_take_in_action h self action =
     (case new_array h (cells h action) of
        (h1, copy) \<Rightarrow> Inr (h1, self\<lparr>self_force_vals := copy\<rparr>))"

definition heap_reset_initial_body :: "wave1d_obj \<Rightarrow> int \<Rightarrow> heap \<Rightarrow> error + heap" where
  "heap_reset_initial_body self i h =
     bindE (heap_get h (self_x_mesh self) i) (\<lambda>xi.
     heap_set h (self_height_n self) i (Initial_Height xi))"

definition heap_reset_first_body :: "wave1d_obj \<Rightarrow> int \<Rightarrow> heap \<Rightarrow> error + heap" where
  "heap_reset_first_body self i h =
     bindE (heap_get h (self_height_n self) i) (\<lambda>u.
     bindE (heap_get h (self_x_mesh self) i) (\<lambda>xi.
     bindE (heap_set h (self_height self) i (u + self_dt self * Velocity_0 xi)) (\<lambda>h1.
     bindE (heap_get h1 (self_height self) i) (\<lambda>cur1.
     bindE (heap_get h1 (self_height_n self) (i - 1)) (\<lambda>ul.
     bindE (heap_get h1 (self_height_n self) i) (\<lambda>um.
     bindE (heap_get h1 (self_height_n self) (i + 1)) (\<lambda>ur.
     bindE (heap_set h1 (self_height self) i (cur1 + 0.5 * self_C2 self * (ul - 2 * um + ur)))
       (\<lambda>h2.
     bindE (heap_get h2 (self_height self) i) (\<lambda>cur2.
     bindE (heap_get h2 (self_x_mesh self) i) (\<lambda>xi2.
     bindE (heap_impulse_term h2 self xi2) (\<lambda>imp.
     heap_set h2 (self_height self) i (cur2 + 0.5 * (self_dt self)\<^sup>2 * imp))))))))))))"

definition heap_reset :: "heap \<Rightarrow> wave1d_obj \<Rightarrow> error + heap \<times> wave1d_obj" where
  "heap_reset h self0 =
     (let self1 = self0\<lparr>self_t := 0, self_n := 0\<rparr> in
      bindE (np_zeros (self_num_force_points self1)) (\<lambda>z.
      case new_array h z of (h1, zeros) \<Rightarrow>
      let self2 = self1\<lparr>self_force_vals := zeros\<rparr> in
      bindE (for_each (heap_reset_initial_body self2) [0..self_Nx self2] h1) (\<lambda>h2.
      bindE (for_each (heap_reset_first_body self2) [1..self_Nx self2 - 1] h2) (\<lambda>h3.
      bindE (heap_set h3 (self_height self2) 0 0) (\<lambda>h4.
      bindE (heap_set h4 (self_height self2) (self_Nx self2) 0) (\<lambda>h5.
      bindE (heap_assign_all h5 (self_height_nm1 self2) (self_height_n self2)) (\<lambda>h6.
      bindE (heap_assign_all h6 (self_height_n self2) (self_height self2)) (\<lambda>h7.
      Inr (h7, self2)))))))))"

definition heap_single_step_body :: "wave1d_obj \<Rightarrow> int \<Rightarrow> heap \<Rightarrow> error + heap" where
  "heap_single_step_body self i h =
     bindE (heap_get h (self_height_nm1 self) i) (\<lambda>v.
     bindE (heap_get h (self_height_n self) i) (\<lambda>u.
     bindE (heap_set h (self_height self) i (- v + 2 * u)) (\<lambda>h1.
     bindE (heap_get h1 (self_height self) i) (\<lambda>cur1.
     bindE (heap_get h1 (self_height_n self) (i - 1)) (\<lambda>ul.
     bindE (heap_get h1 (self_height_n self) i) (\<lambda>um.
     bindE (heap_get h1 (self_height_n self) (i + 1)) (\<lambda>ur.
     bindE (heap_set h1 (self_height self) i (cur1 + self_C2 self * (ul - 2 * um + ur))) (\<lambda>h2.
     bindE (heap_get h2 (self_height self) i) (\<lambda>cur2.
     bindE (heap_get h2 (self_x_mesh self) i) (\<lambda>xi.
     bindE (heap_impulse_term h2 self xi) (\<lambda>imp.
     heap_set h2 (self_height self) i (cur2 + (self_dt self)\<^sup>2 * imp))))))))))))"

definition heap_single_step :: "heap \<Rightarrow> wave1d_obj \<Rightarrow> error + heap \<times> wave1d_obj" where
  "heap_single_step h self0 =
     (let self1 = self0\<lparr>self_t := self_t self0 + self_dt self0\<rparr>;
          self2 = self1\<lparr>self_n := self_n self1 + 1\<rparr> in
      bindE (for_each (heap_single_step_body self2) [1..self_Nx self2 - 1] h) (\<lambda>h1.
      bindE (heap_set h1 (self_height self2) 0 0) (\<lambda>h2.
      bindE (heap_set h2 (self_height self2) (self_Nx self2) 0) (\<lambda>h3.
      bindE (heap_assign_all h3 (self_height_nm1 self2) (self_height_n self2)) (\<lambda>h4.
      bindE (heap_assign_all h4 (self_height_n self2) (self_height self2)) (\<lambda>h5.
      Inr (h5, self2)))))))"

text \<open>
  \<open>get_observation\<close> allocates the array it returns and keeps no name for it, so the model
  returns its contents.
\<close>

definition heap_get_observation :: "heap \<Rightarrow> wave1d_obj \<Rightarrow> error + observation" where
  "heap_get_observation h self =
     bindE (np_zeros3 1 (self_Nx self + 1) 3) (\<lambda>obs.
     bindE (py_get obs 0) (\<lambda>p.
     bindE (assign_column p 0 (cells h (self_height self))) (\<lambda>p0.
     bindE (assign_column p0 1 (cells h (self_height_n self))) (\<lambda>p1.
     bindE (assign_column p1 2 (cells h (self_height_nm1 self))) (\<lambda>p2.
     py_set obs 0 p2)))))"

text \<open>
  The constructor. Each of the five arrays of lines 38, 48 and 67-69 is new; the slice of
  line 38 is a window on an array that has no other name, so it is allocated as an array of
  its own. The attribute \<open>force_vals\<close> names nothing until \<open>reset\<close> assigns it; the record
  holds the address 0 until then, which \<open>reset\<close> never reads.
\<close>

definition heap_init :: "config \<Rightarrow> heap \<Rightarrow> error + heap \<times> wave1d_obj" where
  "heap_init config h =
     (let dt0 = cfg_time_interval config;
          c0 = cfg_wave_speed config;
          L0 = cfg_system_length config;
          Nx0 = cfg_num_lattice_points config;
          nfp = cfg_num_force_points config in
      bindE (np_linspace 0 L0 (nfp + 2)) (\<lambda>pts.
      case new_array h (py_slice pts 1 (nfp + 1)) of (h1, locs) \<Rightarrow>
      let width = cfg_force_width config * L0 in
      bindE (py_div L0 (real_of_int Nx0)) (\<lambda>dx0.
      bindE (np_linspace 0 L0 (Nx0 + 1)) (\<lambda>mesh_pts.
      case new_array h1 mesh_pts of (h2, mesh) \<Rightarrow>
      bindE (py_div (c0 * dt0) dx0) (\<lambda>courant.
      bindE (heap_get h2 mesh 1) (\<lambda>x1.
      bindE (heap_get h2 mesh 0) (\<lambda>x0.
      bindE (np_zeros (Nx0 + 1)) (\<lambda>z.
      case new_array h2 z of (h3, hgt) \<Rightarrow>
      bindE (np_zeros (Nx0 + 1)) (\<lambda>zn.
      case new_array h3 zn of (h4, hgt_n) \<Rightarrow>
      bindE (np_zeros (Nx0 + 1)) (\<lambda>znm1.
      case new_array h4 znm1 of (h5, hgt_nm1) \<Rightarrow>
      heap_reset h5
        \<lparr>self_dt = dt0, self_c_speed = c0, self_L = L0, self_Nx = Nx0,
         self_num_force_points = nfp, self_force_locations = locs, self_force_width = width,
         self_dx = x1 - x0, self_x_mesh = mesh, self_C = courant, self_C2 = courant\<^sup>2,
         self_height = hgt, self_height_n = hgt_n, self_height_nm1 = hgt_nm1,
         self_height_traj = [], self_action_traj = [], self_t = 0, self_n = 0,
         self_force_vals = 0\<rparr>))))))))))"

text \<open>
  A world: the heap, two instances, and the arrays of the caller. The caller makes an
  array, writes an entry of one of its own arrays, and calls \<open>take_in_action\<close>, with one
  of its arrays, or \<open>single_step\<close> on either instance, reading \<open>get_observation\<close> after
  the call. It writes into no array of an instance: the calls of the class hand none out.
  The trace of a run has an entry for every call: the instance, the call as the instance
  received it (the contents of the vector at the time of the call), and the observation or
  the error. The run ends at the first statement that raises.
\<close>

datatype who = First | Second

record world =
  w_heap :: heap
  w_first :: wave1d_obj
  w_second :: wave1d_obj
  w_buffers :: "ref list"

datatype event =
  New_buffer "real list"
| Write_buffer nat int real
| Call_take_in_action who nat
| Call_single_step who

fun instance_of :: "who \<Rightarrow> world \<Rightarrow> wave1d_obj" where
  "instance_of First w = w_first w"
| "instance_of Second w = w_second w"

fun returned :: "who \<Rightarrow> heap \<times> wave1d_obj \<Rightarrow> world \<Rightarrow> world" where
  "returned First (h, self) w = w\<lparr>w_heap := h, w_first := self\<rparr>"
| "returned Second (h, self) w = w\<lparr>w_heap := h, w_second := self\<rparr>"

type_synonym entry = "who \<times> call \<times> (error + observation)"

text \<open>What a call leaves in the trace, and the world after it when it returned.\<close>

definition after_call ::
  "who \<Rightarrow> call \<Rightarrow> error + heap \<times> wave1d_obj \<Rightarrow> world \<Rightarrow> entry \<times> world option" where
  "after_call p seen result w =
     (case result of
        Inl e \<Rightarrow> ((p, seen, Inl e), None)
      | Inr (h, self) \<Rightarrow>
          (case heap_get_observation h self of
             Inl e \<Rightarrow> ((p, seen, Inl e), None)
           | Inr obs \<Rightarrow> ((p, seen, Inr obs), Some (returned p (h, self) w))))"

definition do_event :: "world \<Rightarrow> event \<Rightarrow> entry option \<times> world option" where
  "do_event w ev =
     (case ev of
        New_buffer xs \<Rightarrow>
          (case new_array (w_heap w) xs of
             (h, r) \<Rightarrow> (None, Some (w\<lparr>w_heap := h, w_buffers := w_buffers w @ [r]\<rparr>)))
      | Write_buffer k i v \<Rightarrow>
          (if k < length (w_buffers w) then
             (case heap_set (w_heap w) (w_buffers w ! k) i v of
                Inl e \<Rightarrow> (None, None)
              | Inr h \<Rightarrow> (None, Some (w\<lparr>w_heap := h\<rparr>)))
           else (None, None))
      | Call_take_in_action p k \<Rightarrow>
          (if k < length (w_buffers w) then
             (case after_call p (Take_in_action (cells (w_heap w) (w_buffers w ! k)))
                     (heap_take_in_action (w_heap w) (instance_of p w) (w_buffers w ! k)) w of
                (en, w') \<Rightarrow> (Some en, w'))
           else (None, None))
      | Call_single_step p \<Rightarrow>
          (case after_call p Single_step (heap_single_step (w_heap w) (instance_of p w)) w of
             (en, w') \<Rightarrow> (Some en, w')))"

fun run_events :: "world \<Rightarrow> event list \<Rightarrow> entry list" where
  "run_events w [] = []"
| "run_events w (ev # evs) =
     (case do_event w ev of
        (en, None) \<Rightarrow> (case en of None \<Rightarrow> [] | Some x \<Rightarrow> [x])
      | (en, Some w') \<Rightarrow> (case en of None \<Rightarrow> [] | Some x \<Rightarrow> [x]) @ run_events w' evs)"

definition calls_of :: "who \<Rightarrow> entry list \<Rightarrow> call list" where
  "calls_of p tr = map (\<lambda>en. fst (snd en)) (filter (\<lambda>en. fst en = p) tr)"

definition observed_by :: "who \<Rightarrow> entry list \<Rightarrow> (error + observation) list" where
  "observed_by p tr = map (\<lambda>en. snd (snd en)) (filter (\<lambda>en. fst en = p) tr)"

text \<open>The two instances are constructed one after the other, in any heap.\<close>

definition start_world :: "config \<Rightarrow> heap \<Rightarrow> error + world" where
  "start_world config h =
     bindE (heap_init config h) (\<lambda>(h1, a).
     bindE (heap_init config h1) (\<lambda>(h2, b).
     Inr \<lparr>w_heap = h2, w_first = a, w_second = b, w_buffers = []\<rparr>))"

text \<open>
  What the proofs keep of an instance: its six arrays are allocated and are six arrays, and
  its state is one of a run.
\<close>

definition refs :: "wave1d_obj \<Rightarrow> ref list" where
  "refs self =
     [self_height self, self_height_n self, self_height_nm1 self, self_x_mesh self,
      self_force_locations self, self_force_vals self]"

definition owns :: "heap \<Rightarrow> wave1d_obj \<Rightarrow> bool" where
  "owns h self \<longleftrightarrow> distinct (refs self) \<and> (\<forall>r \<in> set (refs self). r < fresh h)"

definition world_ok :: "config \<Rightarrow> world \<Rightarrow> bool" where
  "world_ok config w \<longleftrightarrow>
     owns (w_heap w) (w_first w) \<and> owns (w_heap w) (w_second w) \<and>
     consistent config (view (w_heap w) (w_first w)) \<and>
     consistent config (view (w_heap w) (w_second w)) \<and>
     set (refs (w_first w)) \<inter> set (refs (w_second w)) = {} \<and>
     (\<forall>r \<in> set (w_buffers w).
        r < fresh (w_heap w) \<and> r \<notin> set (refs (w_first w)) \<and> r \<notin> set (refs (w_second w)))"

text \<open>
  A concrete run: the caller passes an array to the first instance, overwrites an entry of
  that array before the instance steps, and gives the second instance the same vector in
  another array.
\<close>

definition empty_heap :: heap where
  "empty_heap = \<lparr>cells = (\<lambda>r. []), fresh = 0\<rparr>"

definition example_events :: "event list" where
  "example_events =
     [New_buffer [1, 0, - 1], Call_take_in_action First 0, Write_buffer 0 0 9,
      Call_single_step First, New_buffer [1, 0, - 1], Call_take_in_action Second 1,
      Call_single_step Second]"

text \<open>The world that the two constructors leave in the empty heap.\<close>

definition example_world :: world where
  "example_world = \<lparr>w_heap =
            \<lparr>cells = (\<lambda>r. [])
               (0 := [1, 2, 3], 1 := [0, 1, 2, 3, 4], 5 := [0, 0, 0],
                2 := [0, 0, 0, 0, 0], 4 := [0, 0, 0, 0, 0], 3 := [0, 0, 0, 0, 0],
                6 := [1, 2, 3], 7 := [0, 1, 2, 3, 4], 11 := [0, 0, 0],
                8 := [0, 0, 0, 0, 0], 10 := [0, 0, 0, 0, 0], 9 := [0, 0, 0, 0, 0]),
             fresh = 12\<rparr>,
          w_first =
            \<lparr>self_dt = 1, self_c_speed = 1, self_L = 4, self_Nx = 4,
             self_num_force_points = 3, self_force_locations = 0, self_force_width = 4,
             self_dx = 1, self_x_mesh = 1, self_C = 1, self_C2 = 1, self_height = 2,
             self_height_n = 3, self_height_nm1 = 4, self_height_traj = [],
             self_action_traj = [], self_t = 0, self_n = 0, self_force_vals = 5\<rparr>,
          w_second =
            \<lparr>self_dt = 1, self_c_speed = 1, self_L = 4, self_Nx = 4,
             self_num_force_points = 3, self_force_locations = 6, self_force_width = 4,
             self_dx = 1, self_x_mesh = 7, self_C = 1, self_C2 = 1, self_height = 8,
             self_height_n = 9, self_height_nm1 = 10, self_height_traj = [],
             self_action_traj = [], self_t = 0, self_n = 0, self_force_vals = 11\<rparr>,
          w_buffers = []\<rparr>"

section \<open>Auxiliary facts\<close>

lemma bindE_Inr [simp]: "bindE (Inr v) f = f v"
  by (simp add: bindE_def)

lemma bindE_Inl [simp]: "bindE (Inl e) f = Inl e"
  by (simp add: bindE_def)

lemma py_index_in_range: "0 \<le> i \<Longrightarrow> i < int len \<Longrightarrow> py_index len i = Inr (nat i)"
  by (simp add: py_index_def)

lemma py_get_in_range: "0 \<le> i \<Longrightarrow> i < int (length xs) \<Longrightarrow> py_get xs i = Inr (xs ! nat i)"
  by (simp add: py_get_def py_index_in_range)

lemma py_set_in_range:
  "0 \<le> i \<Longrightarrow> i < int (length xs) \<Longrightarrow> py_set xs i v = Inr (xs[nat i := v])"
  by (simp add: py_set_def py_index_in_range)

lemma for_each_update:
  assumes "\<And>i h. i \<in> set is \<Longrightarrow> length h = len \<Longrightarrow> body i h = Inr (h[nat i := g i])"
    and "length h = len"
  shows "for_each body is h = Inr (fold (\<lambda>i a. a[nat i := g i]) is h)"
  using assms
proof (induction "is" arbitrary: h)
  case Nil
  then show ?case by simp
next
  case (Cons i "is")
  have "body i h = Inr (h[nat i := g i])"
    using Cons.prems by simp
  moreover have "for_each body is (h[nat i := g i]) =
      Inr (fold (\<lambda>i a. a[nat i := g i]) is (h[nat i := g i]))"
    using Cons.prems by (intro Cons.IH) simp_all
  ultimately show ?case by simp
qed

lemma for_each_fails:
  assumes "body i h = Inl e"
  shows "for_each body (i # is) h = Inl e"
  using assms by simp

lemma length_fold_update [simp]: "length (fold (\<lambda>i a. a[nat i := g i]) is h) = length h"
  by (induction "is" arbitrary: h) simp_all

lemma fold_update_nth:
  assumes "\<forall>i\<in>set is. 0 \<le> i" and "k < length h"
  shows "fold (\<lambda>i a. a[nat i := g i]) is h ! k = (if int k \<in> set is then g (int k) else h ! k)"
  using assms
proof (induction "is" arbitrary: h)
  case Nil
  then show ?case by simp
next
  case (Cons i "is")
  have i: "0 \<le> i" using Cons.prems by simp
  have "fold (\<lambda>i a. a[nat i := g i]) is (h[nat i := g i]) ! k =
      (if int k \<in> set is then g (int k) else h[nat i := g i] ! k)"
    using Cons.prems by (intro Cons.IH) simp_all
  moreover have "h[nat i := g i] ! k = (if int k = i then g (int k) else h ! k)"
    using i Cons.prems(2) by (auto simp: nth_list_update)
  ultimately show ?case by auto
qed

lemma impulse_term_Inr:
  assumes "length (force_vals s) = length (force_locations s)"
  shows "impulse_term s x =
    Inr (\<Sum>j<length (force_vals s).
           force_vals s ! j * exp (- 0.5 * (x - force_locations s ! j)\<^sup>2 / force_width s))"
proof -
  have "sum_list (map2 (*) (force_vals s)
          (map (\<lambda>loc. exp (- 0.5 * (x - loc)\<^sup>2 / force_width s)) (force_locations s))) =
        (\<Sum>j<length (force_vals s).
           force_vals s ! j * exp (- 0.5 * (x - force_locations s ! j)\<^sup>2 / force_width s))"
    using assms by (simp add: sum_list_sum_nth atLeast0LessThan)
  then show ?thesis
    using assms by (simp add: impulse_term_def np_binop_def)
qed

lemma impulse_term_isl:
  "isl (impulse_term s x) \<longleftrightarrow>
     \<not> (length (force_vals s) = length (force_locations s) \<or> length (force_vals s) = 1 \<or>
        length (force_locations s) = 1)"
  by (simp add: impulse_term_def np_binop_def)

lemma impulse_term_error:
  "isl (impulse_term s x) \<Longrightarrow> impulse_term s y = Inl ValueError"
  by (simp add: impulse_term_def np_binop_def split: if_splits)

lemma impulse_term_zero:
  assumes "force_vals s = replicate (length (force_locations s)) 0"
  shows "impulse_term s x = Inr 0"
  using assms by (simp add: impulse_term_Inr)

lemma fold_update_boundaries:
  assumes "length h = Suc m" and "1 \<le> m"
  shows "(fold (\<lambda>i a. a[nat i := g i]) [1..int m - 1] h)[0 := 0, m := 0] =
         map (\<lambda>k. if k = 0 \<or> k = m then 0 else g (int k)) [0..<Suc m]"
proof (rule nth_equalityI)
  show "length ((fold (\<lambda>i a. a[nat i := g i]) [1..int m - 1] h)[0 := 0, m := 0]) =
        length (map (\<lambda>k. if k = 0 \<or> k = m then 0 else g (int k)) [0..<Suc m])"
    using assms by simp
next
  fix k
  assume "k < length ((fold (\<lambda>i a. a[nat i := g i]) [1..int m - 1] h)[0 := 0, m := 0])"
  then have k: "k < Suc m" using assms by simp
  have "fold (\<lambda>i a. a[nat i := g i]) [1..int m - 1] h ! k =
        (if int k \<in> set [1..int m - 1] then g (int k) else h ! k)"
    using k assms by (intro fold_update_nth) simp_all
  then show "(fold (\<lambda>i a. a[nat i := g i]) [1..int m - 1] h)[0 := 0, m := 0] ! k =
        map (\<lambda>k. if k = 0 \<or> k = m then 0 else g (int k)) [0..<Suc m] ! k"
    using k assms by (auto simp: nth_list_update nth_append simp del: upt_Suc)
qed

lemma fold_update_const:
  assumes "length h = Suc m"
  shows "fold (\<lambda>i a. a[nat i := (0::real)]) [0..int m] h = replicate (Suc m) 0"
proof (rule nth_equalityI)
  show "length (fold (\<lambda>i a. a[nat i := (0::real)]) [0..int m] h) = length (replicate (Suc m) (0::real))"
    using assms by simp
next
  fix k
  assume "k < length (fold (\<lambda>i a. a[nat i := (0::real)]) [0..int m] h)"
  then have k: "k < Suc m" using assms by simp
  have "fold (\<lambda>i a. a[nat i := (0::real)]) [0..int m] h ! k =
        (if int k \<in> set [0..int m] then 0 else h ! k)"
    using k assms by (intro fold_update_nth) simp_all
  moreover have "replicate (Suc m) (0::real) ! k = 0"
    using k by (intro nth_replicate)
  ultimately show "fold (\<lambda>i a. a[nat i := (0::real)]) [0..int m] h ! k = replicate (Suc m) 0 ! k"
    using k by auto
qed

lemma single_step_body_Inr:
  assumes "length (height_n s) = len" and "length (height_nm1 s) = len"
    and "length (x_mesh s) = len" and "length h = len"
    and "1 \<le> i" and "i + 1 < int len"
    and "impulse_term s (x_mesh s ! nat i) = Inr imp"
  shows "single_step_body s i h =
     Inr (h[nat i := - (height_nm1 s ! nat i) + 2 * height_n s ! nat i
            + C2 s * (height_n s ! nat (i - 1) - 2 * height_n s ! nat i + height_n s ! nat (i + 1))
            + (dt s)\<^sup>2 * imp])"
  using assms by (simp add: single_step_body_def py_get_in_range py_set_in_range)

lemma single_step_body_Inl:
  assumes "length (height_n s) = len" and "length (height_nm1 s) = len"
    and "length (x_mesh s) = len" and "length h = len"
    and "1 \<le> i" and "i + 1 < int len"
    and "isl (impulse_term s x)"
  shows "single_step_body s i h = Inl ValueError"
  using assms impulse_term_error [of s x]
  by (simp add: single_step_body_def py_get_in_range py_set_in_range)

lemma reset_first_body_Inr:
  assumes "length (height_n s) = len" and "length (x_mesh s) = len" and "length h = len"
    and "1 \<le> i" and "i + 1 < int len"
    and "impulse_term s (x_mesh s ! nat i) = Inr imp"
  shows "reset_first_body s i h =
     Inr (h[nat i := height_n s ! nat i + dt s * Velocity_0 (x_mesh s ! nat i)
            + 0.5 * C2 s * (height_n s ! nat (i - 1) - 2 * height_n s ! nat i + height_n s ! nat (i + 1))
            + 0.5 * (dt s)\<^sup>2 * imp])"
  using assms by (simp add: reset_first_body_def py_get_in_range py_set_in_range)

lemma reset_initial_body_Inr:
  assumes "length (x_mesh s) = len" and "length h = len" and "0 \<le> i" and "i < int len"
  shows "reset_initial_body s i h = Inr (h[nat i := 0])"
  using assms by (simp add: reset_initial_body_def Initial_Height_def py_get_in_range py_set_in_range)

lemma reset_first_loop:
  assumes "height_n s = replicate (Suc m) 0" and "length (x_mesh s) = Suc m"
    and "length h = Suc m"
    and "force_vals s = replicate (length (force_locations s)) 0"
  shows "for_each (reset_first_body s) [1..int m - 1] h =
         Inr (fold (\<lambda>i a. a[nat i := 0]) [1..int m - 1] h)"
proof (rule for_each_update [where len = "Suc m"])
  fix i and h' :: "real list"
  assume i: "i \<in> set [1..int m - 1]" and h': "length h' = Suc m"
  have imp: "impulse_term s (x_mesh s ! nat i) = Inr 0"
    using assms(4) by (rule impulse_term_zero)
  have "reset_first_body s i h' =
     Inr (h'[nat i := height_n s ! nat i + dt s * Velocity_0 (x_mesh s ! nat i)
            + 0.5 * C2 s * (height_n s ! nat (i - 1) - 2 * height_n s ! nat i + height_n s ! nat (i + 1))
            + 0.5 * (dt s)\<^sup>2 * 0])"
    using assms i h' imp by (intro reset_first_body_Inr [where len = "Suc m"]) simp_all
  moreover have "nat i < Suc m" "nat (i - 1) < Suc m" "nat (i + 1) < Suc m"
    using i by auto
  then have "height_n s ! nat i = 0" "height_n s ! nat (i - 1) = 0"
    "height_n s ! nat (i + 1) = 0"
    unfolding assms(1) by (simp_all only: nth_replicate)
  ultimately show "reset_first_body s i h' = Inr (h'[nat i := 0])"
    by (simp add: Velocity_0_def)
qed (use assms in simp)

lemma reset_Inr:
  assumes "1 \<le> Nx s" and "length (x_mesh s) = Suc (nat (Nx s))"
    and "length (height s) = Suc (nat (Nx s))" and "length (height_n s) = Suc (nat (Nx s))"
    and "length (height_nm1 s) = Suc (nat (Nx s))"
    and "0 \<le> num_force_points s"
    and "length (force_locations s) = nat (num_force_points s)"
  shows "reset s = Inr (s\<lparr>t := 0, n := 0,
           force_vals := replicate (nat (num_force_points s)) 0,
           height_n := replicate (Suc (nat (Nx s))) 0,
           height := replicate (Suc (nat (Nx s))) 0,
           height_nm1 := replicate (Suc (nat (Nx s))) 0\<rparr>)"
proof -
  define m where "m = nat (Nx s)"
  have Nx: "Nx s = int m" and m: "1 \<le> m"
    using assms(1) by (simp_all add: m_def)
  have len: "length (x_mesh s) = Suc m" "length (height s) = Suc m"
    "length (height_n s) = Suc m" "length (height_nm1 s) = Suc m"
    using assms(2-5) by (simp_all add: m_def)
  define s2 where "s2 = s\<lparr>t := 0, n := 0, force_vals := replicate (nat (num_force_points s)) 0\<rparr>"
  have zeros: "np_zeros (num_force_points s) = Inr (replicate (nat (num_force_points s)) 0)"
    using assms(6) by (simp add: np_zeros_def)
  have loop1: "for_each (reset_initial_body s2) [0..int m] (height_n s) =
        Inr (replicate (Suc m) 0)"
  proof -
    have "for_each (reset_initial_body s2) [0..int m] (height_n s) =
          Inr (fold (\<lambda>i a. a[nat i := 0]) [0..int m] (height_n s))"
      using len
      by (intro for_each_update [where len = "Suc m"] reset_initial_body_Inr [where len = "Suc m"])
         (simp_all add: s2_def)
    then show ?thesis
      using len by (simp add: fold_update_const del: replicate_Suc)
  qed
  define s3 where "s3 = s2\<lparr>height_n := replicate (Suc m) 0\<rparr>"
  have loop2: "for_each (reset_first_body s3) [1..int m - 1] (height s) =
        Inr (fold (\<lambda>i a. a[nat i := 0]) [1..int m - 1] (height s))"
    using len assms(7) by (intro reset_first_loop) (simp_all add: s3_def s2_def)
  have fin: "(fold (\<lambda>i a. a[nat i := 0]) [1..int m - 1] (height s))[0 := 0, m := 0] =
        replicate (Suc m) (0::real)"
  proof -
    have "(fold (\<lambda>i a. a[nat i := 0]) [1..int m - 1] (height s))[0 := 0, m := 0] =
        map (\<lambda>k. if k = 0 \<or> k = m then 0 else (0::real)) [0..<Suc m]"
      using len m by (intro fold_update_boundaries) simp_all
    also have "\<dots> = replicate (Suc m) 0"
      by (simp add: map_replicate_const del: upt_Suc replicate_Suc)
    finally show ?thesis .
  qed
  have set0: "py_set (fold (\<lambda>i a. a[nat i := 0]) [1..int m - 1] (height s)) 0 0 =
        Inr ((fold (\<lambda>i a. a[nat i := 0]) [1..int m - 1] (height s))[0 := 0])"
    using len by (simp add: py_set_in_range)
  have setN: "py_set ((fold (\<lambda>i a. a[nat i := 0]) [1..int m - 1] (height s))[0 := 0]) (int m) 0 =
        Inr (replicate (Suc m) 0)"
    using len fin by (simp add: py_set_in_range)
  show ?thesis
    unfolding reset_def Let_def
    using zeros loop1 loop2 set0 setN len
    by (simp add: Nx s2_def s3_def np_assign_all_def del: replicate_Suc)
qed

lemma py_slice_linspace:
  "py_slice (map f [0..<Suc (Suc m)]) 1 (int m + 1) = map (\<lambda>j. f (j + 1)) [0..<m]"
proof -
  have "take m (drop 1 (map f [0..<Suc (Suc m)])) = map f [1..<Suc m]"
    by (simp add: drop_map take_map del: upt_Suc)
  also have "\<dots> = map (\<lambda>j. f (j + 1)) [0..<m]"
    by (simp add: map_Suc_upt [symmetric] del: upt_Suc)
  finally show ?thesis
    by (simp add: py_slice_def py_slice_bound_def nat_add_distrib del: upt_Suc)
qed

lemma init_Inr:
  assumes "constructible config"
  shows "init config = Inr (rest_state config)"
proof -
  define m where "m = nat (cfg_num_lattice_points config)"
  define f where "f = nat (cfg_num_force_points config)"
  define len where "len = cfg_system_length config"
  have Nx: "cfg_num_lattice_points config = int m" and m: "1 \<le> m"
    and Nf: "cfg_num_force_points config = int f"
    and L: "len \<noteq> 0"
    using assms by (auto simp: constructible_def m_def f_def len_def)
  have pts: "np_linspace 0 len (int f + 2) =
      Inr (map (\<lambda>k. real k * (len / real_of_int (int f + 1))) [0..<Suc (Suc f)])"
    by (simp add: np_linspace_def nat_add_distrib del: upt_Suc)
  have locs: "py_slice (map (\<lambda>k. real k * (len / real_of_int (int f + 1))) [0..<Suc (Suc f)])
      1 (int f + 1) = map (force_site config) [0..<f]"
    unfolding py_slice_linspace by (simp add: force_site_def Nf len_def)
  have dx0: "py_div len (real_of_int (int m)) = Inr (len / real m)"
    using m by (simp add: py_div_def)
  have mesh: "np_linspace 0 len (int m + 1) = Inr (map (mesh_point config) [0..<Suc m])"
    using m by (simp add: np_linspace_def nat_add_distrib mesh_point_def Nx len_def del: upt_Suc)
  have courant: "py_div (cfg_wave_speed config * cfg_time_interval config) (len / real m) =
      Inr (cfg_wave_speed config * cfg_time_interval config / (len / real m))"
    using m L by (simp add: py_div_def)
  have x1: "py_get (map (mesh_point config) [0..<Suc m]) 1 = Inr (mesh_point config 1)"
    and x0: "py_get (map (mesh_point config) [0..<Suc m]) 0 = Inr (mesh_point config 0)"
    using m by (simp_all add: py_get_in_range nth_append del: upt_Suc)
  have zeros: "np_zeros (int m + 1) = Inr (replicate (Suc m) 0)"
    by (simp add: np_zeros_def nat_add_distrib del: replicate_Suc)
  define s0 where "s0 = \<lparr>dt = cfg_time_interval config, c_speed = cfg_wave_speed config,
      L = len, Nx = int m, num_force_points = int f,
      force_locations = map (force_site config) [0..<f],
      force_width = cfg_force_width config * len,
      dx = mesh_point config 1 - mesh_point config 0,
      x_mesh = map (mesh_point config) [0..<Suc m],
      C = cfg_wave_speed config * cfg_time_interval config / (len / real m),
      C2 = (cfg_wave_speed config * cfg_time_interval config / (len / real m))\<^sup>2,
      height = replicate (Suc m) 0, height_n = replicate (Suc m) 0,
      height_nm1 = replicate (Suc m) 0,
      height_traj = [], action_traj = [], t = 0, n = 0, force_vals = []\<rparr>"
  have "reset s0 = Inr (s0\<lparr>t := 0, n := 0,
           force_vals := replicate (nat (num_force_points s0)) 0,
           height_n := replicate (Suc (nat (Nx s0))) 0,
           height := replicate (Suc (nat (Nx s0))) 0,
           height_nm1 := replicate (Suc (nat (Nx s0))) 0\<rparr>)"
    using m by (intro reset_Inr) (simp_all add: s0_def del: upt_Suc)
  also have "s0\<lparr>t := 0, n := 0,
           force_vals := replicate (nat (num_force_points s0)) 0,
           height_n := replicate (Suc (nat (Nx s0))) 0,
           height := replicate (Suc (nat (Nx s0))) 0,
           height_nm1 := replicate (Suc (nat (Nx s0))) 0\<rparr> = rest_state config"
    by (simp add: s0_def rest_state_def Nx Nf len_def del: upt_Suc replicate_Suc)
  finally have reset: "reset s0 = Inr (rest_state config)" .
  have "init config = reset s0"
    by (simp only: init_def Let_def Nx Nf len_def [symmetric] pts locs dx0 mesh courant x1 x0
        zeros s0_def bindE_Inr)
  then show ?thesis
    using reset by simp
qed

lemma init_Inl:
  assumes "\<not> constructible config"
  shows "isl (init config)"
proof -
  define Nx0 where "Nx0 = cfg_num_lattice_points config"
  define Nf0 where "Nf0 = cfg_num_force_points config"
  define len where "len = cfg_system_length config"
  consider "Nf0 + 2 < 0" | "0 \<le> Nf0 + 2" "Nx0 = 0" | "0 \<le> Nf0 + 2" "Nx0 < -1"
    | "0 \<le> Nf0 + 2" "Nx0 = -1 \<or> 1 \<le> Nx0" "len = 0"
    | "0 \<le> Nf0 + 2" "Nx0 = -1" "len \<noteq> 0"
    | "Nf0 = -1 \<or> Nf0 = -2" "1 \<le> Nx0" "len \<noteq> 0"
    using assms unfolding constructible_def Nx0_def Nf0_def len_def
    by atomize_elim arith
  then show ?thesis
  proof cases
    case 1
    then show ?thesis
      by (simp add: init_def Let_def np_linspace_def Nf0_def)
  next
    case 2
    then show ?thesis
      by (simp add: init_def Let_def np_linspace_def py_div_def Nx0_def Nf0_def)
  next
    case 3
    then show ?thesis
      by (simp add: init_def Let_def np_linspace_def py_div_def Nx0_def Nf0_def)
  next
    case 4
    then show ?thesis
      by (auto simp add: init_def Let_def np_linspace_def py_div_def Nx0_def Nf0_def len_def)
  next
    case 5
    then show ?thesis
      by (simp add: init_def Let_def np_linspace_def py_div_def py_get_def py_index_def
          Nx0_def Nf0_def len_def)
  next
    case 6
    then have "np_zeros Nf0 = Inl ValueError"
      by (auto simp: np_zeros_def)
    with 6 show ?thesis
      by (auto simp add: init_def Let_def np_linspace_def py_div_def py_get_def py_index_def
          reset_def Nx0_def Nf0_def len_def np_zeros_def)
  qed
qed

lemma single_step_loop_Inr:
  assumes "length (height_n s) = Suc m" and "length (height_nm1 s) = Suc m"
    and "length (x_mesh s) = Suc m" and "length h = Suc m"
    and "\<not> isl (impulse_term s 0)"
  shows "for_each (single_step_body s) [1..int m - 1] h =
         Inr (fold (\<lambda>i a. a[nat i := leapfrog s (impulse_at s (nat i)) (nat i)]) [1..int m - 1] h)"
proof (rule for_each_update [where len = "Suc m"])
  fix i and h' :: "real list"
  assume i: "i \<in> set [1..int m - 1]" and h': "length h' = Suc m"
  have "\<not> isl (impulse_term s (x_mesh s ! nat i))"
    using assms(5) by (simp add: impulse_term_isl)
  then have imp: "impulse_term s (x_mesh s ! nat i) = Inr (impulse_at s (nat i))"
    by (simp add: impulse_at_def)
  have "single_step_body s i h' =
     Inr (h'[nat i := - (height_nm1 s ! nat i) + 2 * height_n s ! nat i
            + C2 s * (height_n s ! nat (i - 1) - 2 * height_n s ! nat i + height_n s ! nat (i + 1))
            + (dt s)\<^sup>2 * impulse_at s (nat i)])"
    using assms(1-3) i h' imp by (intro single_step_body_Inr [where len = "Suc m"]) simp_all
  moreover have "nat (i - 1) = nat i - 1" "nat (i + 1) = nat i + 1"
    using i by (simp_all add: nat_diff_distrib nat_add_distrib)
  ultimately show "single_step_body s i h' =
      Inr (h'[nat i := leapfrog s (impulse_at s (nat i)) (nat i)])"
    by (simp add: leapfrog_def)
qed (use assms in simp)

lemma single_step_loop_Inl:
  assumes "length (height_n s) = Suc m" and "length (height_nm1 s) = Suc m"
    and "length (x_mesh s) = Suc m" and "length h = Suc m"
    and "isl (impulse_term s 0)" and "2 \<le> m"
  shows "for_each (single_step_body s) [1..int m - 1] h = Inl ValueError"
proof -
  have "[1..int m - 1] = 1 # [2..int m - 1]"
    using assms(6) by (simp add: upto_rec1)
  moreover have "single_step_body s 1 h = Inl ValueError"
    using assms by (intro single_step_body_Inl [where len = "Suc m" and x = 0]) simp_all
  ultimately show ?thesis
    by (simp only: for_each_fails)
qed

lemma single_step_eq:
  assumes "1 \<le> Nx s" and "length (x_mesh s) = Suc (nat (Nx s))"
    and "length (height s) = Suc (nat (Nx s))" and "length (height_n s) = Suc (nat (Nx s))"
    and "length (height_nm1 s) = Suc (nat (Nx s))"
  shows "single_step s =
     (if isl (impulse_term s 0) \<and> 2 \<le> Nx s then Inl ValueError else Inr (stepped s))"
proof -
  define m where "m = nat (Nx s)"
  have Nx: "Nx s = int m" and m: "1 \<le> m"
    using assms(1) by (simp_all add: m_def)
  have len: "length (x_mesh s) = Suc m" "length (height s) = Suc m"
    "length (height_n s) = Suc m" "length (height_nm1 s) = Suc m"
    using assms(2-5) by (simp_all add: m_def)
  define s2 where "s2 = s\<lparr>t := t s + dt s, n := n s + 1\<rparr>"
  have s2: "height_n s2 = height_n s" "height_nm1 s2 = height_nm1 s" "x_mesh s2 = x_mesh s"
    "height s2 = height s" "Nx s2 = int m" "impulse_term s2 = impulse_term s"
    "leapfrog s2 = leapfrog s" "impulse_at s2 = impulse_at s"
    by (simp_all add: s2_def Nx impulse_term_def leapfrog_def impulse_at_def fun_eq_iff)
  have unfold: "single_step s =
      bindE (for_each (single_step_body s2) [1..int m - 1] (height s)) (\<lambda>h.
      bindE (py_set h 0 0) (\<lambda>h0.
      bindE (py_set h0 (int m) 0) (\<lambda>hN.
      bindE (np_assign_all (height_nm1 s) (height_n s)) (\<lambda>nm1.
      bindE (np_assign_all (height_n s) hN) (\<lambda>hn'.
      Inr (s2\<lparr>height := hN, height_nm1 := nm1, height_n := hn'\<rparr>))))))"
    by (simp add: single_step_def Let_def s2_def Nx)
  show ?thesis
  proof (cases "isl (impulse_term s 0) \<and> 2 \<le> Nx s")
    case True
    then have "for_each (single_step_body s2) [1..int m - 1] (height s) = Inl ValueError"
      using len s2 by (intro single_step_loop_Inl) (simp_all add: Nx)
    with True show ?thesis
      by (simp add: unfold)
  next
    case False
    define g where "g = (\<lambda>i. leapfrog s (impulse_at s (nat i)) (nat i))"
    have loop: "for_each (single_step_body s2) [1..int m - 1] (height s) =
        Inr (fold (\<lambda>i a. a[nat i := g i]) [1..int m - 1] (height s))"
    proof (cases "isl (impulse_term s 0)")
      case True
      with False have "m = 1" using m by (simp add: Nx)
      then show ?thesis by simp
    next
      case False
      then show ?thesis
        unfolding g_def s2(7,8) [symmetric]
        using len s2 by (intro single_step_loop_Inr) simp_all
    qed
    have fin: "(fold (\<lambda>i a. a[nat i := g i]) [1..int m - 1] (height s))[0 := 0, m := 0] =
        stepped_height s"
    proof -
      have "(fold (\<lambda>i a. a[nat i := g i]) [1..int m - 1] (height s))[0 := 0, m := 0] =
          map (\<lambda>k. if k = 0 \<or> k = m then 0 else g (int k)) [0..<Suc m]"
        using len m by (intro fold_update_boundaries) simp_all
      then show ?thesis
        by (simp add: stepped_height_def g_def m_def del: upt_Suc)
    qed
    have lenH: "length (stepped_height s) = Suc m"
      by (simp add: stepped_height_def m_def del: upt_Suc)
    have set0: "py_set (fold (\<lambda>i a. a[nat i := g i]) [1..int m - 1] (height s)) 0 0 =
        Inr ((fold (\<lambda>i a. a[nat i := g i]) [1..int m - 1] (height s))[0 := 0])"
      using len by (simp add: py_set_in_range)
    have setN: "py_set ((fold (\<lambda>i a. a[nat i := g i]) [1..int m - 1] (height s))[0 := 0]) (int m) 0 =
        Inr (stepped_height s)"
      using len fin by (simp add: py_set_in_range)
    have "single_step s = Inr (s2\<lparr>height := stepped_height s, height_nm1 := height_n s,
        height_n := stepped_height s\<rparr>)"
      unfolding unfold using loop set0 setN len lenH
      by (simp add: np_assign_all_def)
    with False show ?thesis
      by (simp add: stepped_def s2_def)
  qed
qed

lemma consistent_shape:
  assumes "consistent config s"
  shows "1 \<le> Nx s" and "length (x_mesh s) = Suc (nat (Nx s))"
    and "length (height s) = Suc (nat (Nx s))" and "length (height_n s) = Suc (nat (Nx s))"
    and "length (height_nm1 s) = Suc (nat (Nx s))"
    and "0 \<le> num_force_points s"
    and "length (force_locations s) = nat (num_force_points s)"
  using assms
  by (simp_all add: consistent_def constructible_def same_static_def rest_state_def del: upt_Suc)

lemma consistent_rest_state:
  assumes "constructible config"
  shows "consistent config (rest_state config)"
proof -
  have "replicate (Suc (nat (cfg_num_lattice_points config))) (0::real) !
          nat (cfg_num_lattice_points config) = 0"
    by (intro nth_replicate) simp
  then show ?thesis
    using assms
    by (simp add: consistent_def same_static_def rest_state_def del: replicate_Suc upt_Suc)
qed

lemma stepped_height_boundary:
  "length (stepped_height s) = Suc (nat (Nx s))" "stepped_height s ! 0 = 0"
  "stepped_height s ! nat (Nx s) = 0"
proof -
  show "length (stepped_height s) = Suc (nat (Nx s))"
    by (simp add: stepped_height_def del: upt_Suc)
  have "0 < Suc (nat (Nx s))" "nat (Nx s) < Suc (nat (Nx s))"
    by simp_all
  then show "stepped_height s ! 0 = 0" "stepped_height s ! nat (Nx s) = 0"
    unfolding stepped_height_def by (simp_all only: nth_map_upt) simp_all
qed

lemma consistent_stepped:
  assumes "consistent config s"
  shows "consistent config (stepped s)"
proof -
  have "height s ! 0 = 0" "height s ! nat (Nx s) = 0" "height_n s = height s"
    "constructible config" "same_static s (rest_state config)"
    "length (height s) = Suc (nat (Nx s))"
    using assms by (simp_all add: consistent_def)
  then show ?thesis
    using stepped_height_boundary [of s]
    by (simp add: consistent_def same_static_def stepped_def)
qed

lemma consistent_single_step:
  assumes "consistent config s"
  shows "single_step s =
     (if isl (impulse_term s 0) \<and> 2 \<le> Nx s then Inl ValueError else Inr (stepped s))"
  using consistent_shape [OF assms] by (intro single_step_eq)

lemma same_static_eq:
  assumes "same_static a b" and "height a = height b" and "height_n a = height_n b"
    and "height_nm1 a = height_nm1 b" and "t a = t b" and "n a = n b"
    and "force_vals a = force_vals b"
  shows "a = (b::wave1d)"
  using assms by (cases a, cases b) (simp add: same_static_def)

lemma consistent_reset:
  assumes "consistent config s"
  shows "reset s = Inr (rest_state config)"
proof -
  have "reset s = Inr (s\<lparr>t := 0, n := 0,
           force_vals := replicate (nat (num_force_points s)) 0,
           height_n := replicate (Suc (nat (Nx s))) 0,
           height := replicate (Suc (nat (Nx s))) 0,
           height_nm1 := replicate (Suc (nat (Nx s))) 0\<rparr>)"
    using consistent_shape [OF assms] by (intro reset_Inr)
  moreover have "s\<lparr>t := 0, n := 0,
           force_vals := replicate (nat (num_force_points s)) 0,
           height_n := replicate (Suc (nat (Nx s))) 0,
           height := replicate (Suc (nat (Nx s))) 0,
           height_nm1 := replicate (Suc (nat (Nx s))) 0\<rparr> = rest_state config"
    using assms
    by (intro same_static_eq) (simp_all add: consistent_def same_static_def rest_state_def
        del: replicate_Suc upt_Suc)
  ultimately show ?thesis by simp
qed

lemma reachable_consistent:
  assumes "reachable config s"
  shows "consistent config s"
  using assms
proof (induction rule: reachable.induct)
  case (constructed s)
  have c: "constructible config"
    using constructed init_Inl [of config] by (cases "constructible config") auto
  then have "s = rest_state config"
    using constructed by (simp add: init_Inr)
  then show ?case
    using c by (simp add: consistent_rest_state)
next
  case (after_reset s s')
  have "reset s = Inr (rest_state config)"
    using after_reset.IH by (rule consistent_reset)
  then have "s' = rest_state config"
    using after_reset.hyps by simp
  moreover have "constructible config"
    using after_reset.IH by (simp add: consistent_def)
  ultimately show ?case
    by (simp add: consistent_rest_state)
next
  case (after_single_step s s')
  have "s' = stepped s"
    using after_single_step.hyps consistent_single_step [OF after_single_step.IH]
    by (simp split: if_splits)
  then show ?case
    using after_single_step.IH by (simp add: consistent_stepped)
next
  case (after_take_in_action s action s')
  then show ?case
    by (auto simp: take_in_action_def consistent_def same_static_def)
qed

lemma constructible_example: "constructible example_config"
  by (simp add: constructible_def example_config_def)

lemma valid_example: "valid_config example_config"
  by (simp add: valid_config_def example_config_def)

lemma valid_constructible: "valid_config config \<Longrightarrow> constructible config"
  by (simp add: valid_config_def constructible_def)

lemma reachable_rest_state:
  assumes "constructible config"
  shows "reachable config (rest_state config)"
  using assms by (intro reachable.constructed init_Inr)

lemma reachable_take_in_action:
  assumes "reachable config s"
  shows "reachable config (s\<lparr>force_vals := action\<rparr>)"
  using assms by (rule reachable.after_take_in_action) (simp add: take_in_action_def)

lemma reachable_example_forced: "reachable example_config example_forced"
  unfolding example_forced_def
  by (intro reachable_take_in_action reachable_rest_state constructible_example)

lemma reachable_example_short: "reachable example_config example_short"
  unfolding example_short_def
  by (intro reachable_take_in_action reachable_rest_state constructible_example)

lemma example_forced_eq:
  "example_forced =
     \<lparr>dt = 1, c_speed = 1, L = 4, Nx = 4, num_force_points = 3,
      force_locations = [1, 2, 3], force_width = 4, dx = 1,
      x_mesh = [0, 1, 2, 3, 4], C = 1, C2 = 1, height = [0, 0, 0, 0, 0],
      height_n = [0, 0, 0, 0, 0], height_nm1 = [0, 0, 0, 0, 0],
      height_traj = [], action_traj = [], t = 0, n = 0, force_vals = [1, 0, - 1]\<rparr>"
  by (simp add: example_forced_def rest_state_def example_config_def force_site_def
      mesh_point_def upt_rec eval_nat_numeral)

lemma stepped_example_forced:
  "stepped example_forced =
     \<lparr>dt = 1, c_speed = 1, L = 4, Nx = 4, num_force_points = 3,
      force_locations = [1, 2, 3], force_width = 4, dx = 1,
      x_mesh = [0, 1, 2, 3, 4], C = 1, C2 = 1,
      height = [0, 1 - exp (- (1 / 2)), 0, exp (- (1 / 2)) - 1, 0],
      height_n = [0, 1 - exp (- (1 / 2)), 0, exp (- (1 / 2)) - 1, 0],
      height_nm1 = [0, 0, 0, 0, 0], height_traj = [], action_traj = [],
      t = 1, n = 1, force_vals = [1, 0, - 1]\<rparr>"
  by (simp add: example_forced_eq stepped_def stepped_height_def leapfrog_def impulse_at_def
      impulse_term_def np_binop_def upt_rec eval_nat_numeral)

lemma single_step_example_forced: "single_step example_forced = Inr (stepped example_forced)"
  using consistent_single_step [OF reachable_consistent [OF reachable_example_forced] ]
  by (simp add: impulse_term_isl example_forced_eq)

lemma reachable_example_stepped: "reachable example_config (stepped example_forced)"
  using reachable_example_forced single_step_example_forced by (rule reachable.after_single_step)

lemma assign_column_Inr:
  assumes "length arr = length plane"
  shows "assign_column plane k arr = Inr (map2 (\<lambda>row v. row[k := v]) plane arr)"
  using assms by (simp add: assign_column_def np_assign_all_def)

lemma column_written:
  assumes "length arr = length plane" and "\<forall>row\<in>set plane. k < length row"
  shows "map (\<lambda>row. row ! k) (map2 (\<lambda>row v. row[k := v]) plane arr) = arr"
  using assms by (intro nth_equalityI) simp_all

lemma column_kept:
  assumes "length arr = length plane" and "j \<noteq> k"
  shows "map (\<lambda>row. row ! j) (map2 (\<lambda>row v. row[k := v]) plane arr) = map (\<lambda>row. row ! j) plane"
  using assms by (intro nth_equalityI) simp_all

lemma rows_kept:
  assumes "length arr = length plane" and "\<forall>row\<in>set plane. length row = w"
  shows "\<forall>row\<in>set (map2 (\<lambda>row v. row[k := v]) plane arr). length row = w"
  using assms by (auto simp: set_zip)

lemma get_observation_Inr:
  assumes "0 \<le> Nx s" and "length (height s) = Suc (nat (Nx s))"
    and "length (height_n s) = Suc (nat (Nx s))" and "length (height_nm1 s) = Suc (nat (Nx s))"
  shows "\<exists>obs. get_observation s = Inr obs \<and> channel obs 0 = height s \<and>
           channel obs 1 = height_n s \<and> channel obs 2 = height_nm1 s"
proof -
  define m where "m = nat (Nx s)"
  define p where "p = replicate (Suc m) (replicate 3 (0::real))"
  define p0 where "p0 = map2 (\<lambda>row v. row[0 := v]) p (height s)"
  define p1 where "p1 = map2 (\<lambda>row v. row[1 := v]) p0 (height_n s)"
  define p2 where "p2 = map2 (\<lambda>row v. row[2 := v]) p1 (height_nm1 s)"
  have len: "length (height s) = Suc m" "length (height_n s) = Suc m"
    "length (height_nm1 s) = Suc m"
    using assms by (simp_all add: m_def)
  have lp: "length p = Suc m" "length p0 = Suc m" "length p1 = Suc m"
    using len by (simp_all add: p_def p0_def p1_def)
  have w: "\<forall>row\<in>set p. length row = 3"
    by (simp add: p_def)
  have w0: "\<forall>row\<in>set p0. length row = 3"
    unfolding p0_def using len lp w by (intro rows_kept) simp_all
  have w1: "\<forall>row\<in>set p1. length row = 3"
    unfolding p1_def using len lp w0 by (intro rows_kept) simp_all
  have zeros: "np_zeros3 1 (Nx s + 1) 3 = Inr [p]"
  proof -
    have "replicate (nat 1) (replicate (Suc m) (replicate (nat 3) (0::real))) = [p]"
      by (simp add: p_def)
    then show ?thesis
      using assms(1) by (simp add: np_zeros3_def m_def nat_add_distrib del: replicate_Suc)
  qed
  have a0: "assign_column p 0 (height s) = Inr p0"
    unfolding p0_def using len lp by (intro assign_column_Inr) simp
  have a1: "assign_column p0 1 (height_n s) = Inr p1"
    unfolding p1_def using len lp by (intro assign_column_Inr) simp
  have a2: "assign_column p1 2 (height_nm1 s) = Inr p2"
    unfolding p2_def using len lp by (intro assign_column_Inr) simp
  have obs: "get_observation s = Inr [p2]"
    by (simp add: get_observation_def zeros a0 a1 a2 py_get_def py_set_def py_index_def
        del: One_nat_def)
  have ch: "channel [q] k = map (\<lambda>row. row ! k) q" for q k
    by (simp add: channel_def)
  have c2: "channel [p2] 2 = height_nm1 s"
    unfolding ch p2_def using len lp w1 by (intro column_written) simp_all
  have "channel [p2] 1 = map (\<lambda>row. row ! 1) p1"
    unfolding ch p2_def using len lp by (intro column_kept) simp_all
  also have "\<dots> = height_n s"
    unfolding p1_def using len lp w0 by (intro column_written) simp_all
  finally have c1: "channel [p2] 1 = height_n s" .
  have "channel [p2] 0 = map (\<lambda>row. row ! 0) p1"
    unfolding ch p2_def using len lp by (intro column_kept) simp_all
  also have "\<dots> = map (\<lambda>row. row ! 0) p0"
    unfolding p1_def using len lp by (intro column_kept) simp_all
  also have "\<dots> = height s"
    unfolding p0_def using len lp w by (intro column_written) simp_all
  finally have c0: "channel [p2] 0 = height s" .
  show ?thesis
    using obs c0 c1 c2 by simp
qed

lemma get_observation_example:
  "get_observation (stepped example_forced) =
     Inr [ [ [0, 0, 0],
           [1 - exp (- (1 / 2)), 1 - exp (- (1 / 2)), 0],
           [0, 0, 0],
           [exp (- (1 / 2)) - 1, exp (- (1 / 2)) - 1, 0],
           [0, 0, 0] ] ]"
  by (simp add: stepped_example_forced get_observation_def np_zeros3_def assign_column_def
      np_assign_all_def py_get_def py_set_def py_index_def eval_nat_numeral)

lemma force_site_inside:
  assumes "0 < cfg_system_length config" and "j < nat (cfg_num_force_points config)"
  shows "0 < force_site config j" and "force_site config j < cfg_system_length config"
proof -
  define f where "f = nat (cfg_num_force_points config)"
  have Nf: "cfg_num_force_points config = int f" and j: "j < f"
    using assms(2) by (simp_all add: f_def)
  show "0 < force_site config j"
    using assms(1) by (simp add: force_site_def Nf)
  have "real (j + 1) < real (f + 1)"
    using j by simp
  then have "real (j + 1) * cfg_system_length config < real (f + 1) * cfg_system_length config"
    using assms(1) by (simp only: mult_less_cancel_right_pos)
  then show "force_site config j < cfg_system_length config"
    by (simp add: force_site_def Nf field_simps)
qed

lemma impulse_term_consistent:
  assumes "consistent config s" and "length (force_vals s) = nat (cfg_num_force_points config)"
  shows "impulse_term s x =
     Inr (\<Sum>j<nat (cfg_num_force_points config).
            force_vals s ! j *
            exp (- 0.5 * (x - force_site config j)\<^sup>2 /
                 (cfg_force_width config * cfg_system_length config)))"
proof -
  have locs: "force_locations s = map (force_site config) [0..<nat (cfg_num_force_points config)]"
    and width: "force_width s = cfg_force_width config * cfg_system_length config"
    using assms(1) by (simp_all add: consistent_def same_static_def rest_state_def)
  have "impulse_term s x =
    Inr (\<Sum>j<length (force_vals s).
           force_vals s ! j * exp (- 0.5 * (x - force_locations s ! j)\<^sup>2 / force_width s))"
    using assms(2) locs by (intro impulse_term_Inr) simp
  then show ?thesis
    using assms(2) by (simp add: locs width)
qed

lemma impulse_at_negated:
  assumes "length a = length (force_locations r)"
  shows "impulse_at (r\<lparr>force_vals := map uminus a\<rparr>) i = - impulse_at (r\<lparr>force_vals := a\<rparr>) i"
proof -
  have "impulse_term (r\<lparr>force_vals := map uminus a\<rparr>) (x_mesh r ! i) =
      Inr (\<Sum>j<length a. (- (a ! j)) * exp (- 0.5 * (x_mesh r ! i - force_locations r ! j)\<^sup>2 / force_width r))"
    using assms impulse_term_Inr [of "r\<lparr>force_vals := map uminus a\<rparr>" "x_mesh r ! i"] by simp
  moreover have "impulse_term (r\<lparr>force_vals := a\<rparr>) (x_mesh r ! i) =
      Inr (\<Sum>j<length a. a ! j * exp (- 0.5 * (x_mesh r ! i - force_locations r ! j)\<^sup>2 / force_width r))"
    using assms impulse_term_Inr [of "r\<lparr>force_vals := a\<rparr>" "x_mesh r ! i"] by simp
  ultimately show ?thesis
    by (simp add: impulse_at_def sum_negf)
qed

lemma stepped_height_negated:
  assumes "length a = length (force_locations r)"
    and "height_n r = replicate (Suc (nat (Nx r))) 0"
    and "height_nm1 r = replicate (Suc (nat (Nx r))) 0"
  shows "stepped_height (r\<lparr>force_vals := map uminus a\<rparr>) =
         map uminus (stepped_height (r\<lparr>force_vals := a\<rparr>))"
proof -
  have "leapfrog (r\<lparr>force_vals := map uminus a\<rparr>) (impulse_at (r\<lparr>force_vals := map uminus a\<rparr>) k) k =
        - leapfrog (r\<lparr>force_vals := a\<rparr>) (impulse_at (r\<lparr>force_vals := a\<rparr>) k) k"
    if "k < nat (Nx r)" "k \<noteq> 0" for k
  proof -
    have "k < Suc (nat (Nx r))" "k - 1 < Suc (nat (Nx r))" "k + 1 < Suc (nat (Nx r))"
      using that by simp_all
    then have "replicate (Suc (nat (Nx r))) (0::real) ! k = 0"
      "replicate (Suc (nat (Nx r))) (0::real) ! (k - 1) = 0"
      "replicate (Suc (nat (Nx r))) (0::real) ! (k + 1) = 0"
      by (simp_all only: nth_replicate)
    then show ?thesis
      using impulse_at_negated [OF assms(1), of k]
      by (simp add: leapfrog_def assms(2,3) del: replicate_Suc)
  qed
  then show ?thesis
    by (auto simp add: stepped_height_def simp del: upt_Suc)
qed

lemma forced_step_example:
  "forced_step (stepped example_forced) [1, 0, - 1] = Inr (stepped example_forced)"
proof -
  have "reset (stepped example_forced) = Inr (rest_state example_config)"
    using reachable_consistent [OF reachable_example_stepped] by (rule consistent_reset)
  then show ?thesis
    using single_step_example_forced
    by (simp add: forced_step_def take_in_action_def example_forced_def)
qed

lemma example_short_eq:
  "example_short =
     \<lparr>dt = 1, c_speed = 1, L = 4, Nx = 4, num_force_points = 3,
      force_locations = [1, 2, 3], force_width = 4, dx = 1,
      x_mesh = [0, 1, 2, 3, 4], C = 1, C2 = 1, height = [0, 0, 0, 0, 0],
      height_n = [0, 0, 0, 0, 0], height_nm1 = [0, 0, 0, 0, 0],
      height_traj = [], action_traj = [], t = 0, n = 0, force_vals = [5]\<rparr>"
  by (simp add: example_short_def rest_state_def example_config_def force_site_def
      mesh_point_def upt_rec eval_nat_numeral)

lemma height_stepped_example_short:
  "height (stepped example_short) =
     [0, 5 + (5 * exp (- (1 / 8)) + 5 * exp (- (1 / 2))), 10 * exp (- (1 / 8)) + 5,
      5 * exp (- (1 / 2)) + (5 * exp (- (1 / 8)) + 5), 0]"
  by (simp add: example_short_eq stepped_def stepped_height_def leapfrog_def impulse_at_def
      impulse_term_def np_binop_def upt_rec eval_nat_numeral)

lemma single_step_example_short: "single_step example_short = Inr (stepped example_short)"
  using consistent_single_step [OF reachable_consistent [OF reachable_example_short] ]
  by (simp add: impulse_term_isl example_short_eq)

lemma init_example: "init example_config = Inr (rest_state example_config)"
  using constructible_example by (rule init_Inr)



lemma np_binop_same_length:
  assumes "length a = length b"
  shows "np_binop f a b = Inr (map2 f a b)"
  using assms by (simp add: np_binop_def)

lemma energy_density_pointwise:
  assumes "length h = len" and "length nm1 = len" and "length dudx = len"
  shows "map2 (+) (map2 (+) (map (\<lambda>v. v\<^sup>2) (map (\<lambda>v. v / step) (map2 (-) h nm1)))
                     (map (\<lambda>v. c\<^sup>2 * v\<^sup>2) dudx))
           (map (\<lambda>v. v\<^sup>2) h) =
         map (\<lambda>i. ((h ! i - nm1 ! i) / step)\<^sup>2 + c\<^sup>2 * (dudx ! i)\<^sup>2 + (h ! i)\<^sup>2) [0..<len]"
  using assms by (intro nth_equalityI) simp_all

lemma energy_eq:
  assumes "2 \<le> length (height s)" and "length (height_nm1 s) = length (height s)"
    and "length (x_mesh s) = length (height s)"
    and "gradient_like g" and "quadrature_like q"
  shows "\<exists>dudx integral. g (height s) (x_mesh s) = Inr dudx \<and>
           length dudx = length (height s) \<and>
           q (map (energy_density_at s dudx) [0..<length (height s)]) (x_mesh s) = Inr integral \<and>
           energy g q s = Inr (integral / 2)"
proof -
  obtain dudx where dudx: "g (height s) (x_mesh s) = Inr dudx" "length dudx = length (height s)"
    using assms(1,3,4) unfolding gradient_like_def by metis
  obtain d2 where d2: "g dudx (x_mesh s) = Inr d2" "length d2 = length dudx"
    using assms(1,3,4) dudx(2) unfolding gradient_like_def by metis
  define density where "density = map (energy_density_at s dudx) [0..<length (height s)]"
  have "length density = length (x_mesh s)" "2 \<le> length density"
    using assms(1,3) by (simp_all add: density_def)
  then obtain integral where integral: "q density (x_mesh s) = Inr integral"
    using assms(5) unfolding quadrature_like_def by metis
  have diff: "np_binop (-) (height s) (height_nm1 s) = Inr (map2 (-) (height s) (height_nm1 s))"
    using assms(2) by (intro np_binop_same_length) simp
  have space: "np_binop (*) (map uminus (height s)) d2 = Inr (map2 (*) (map uminus (height s)) d2)"
    using d2(2) dudx(2) by (intro np_binop_same_length) simp
  have sum0: "np_binop (+)
      (map (\<lambda>v. v\<^sup>2) (map (\<lambda>v. v / dt s) (map2 (-) (height s) (height_nm1 s))))
      (map (\<lambda>v. (C s)\<^sup>2 * v\<^sup>2) dudx) =
      Inr (map2 (+) (map (\<lambda>v. v\<^sup>2) (map (\<lambda>v. v / dt s) (map2 (-) (height s) (height_nm1 s))))
             (map (\<lambda>v. (C s)\<^sup>2 * v\<^sup>2) dudx))"
    using assms(2) dudx(2) by (intro np_binop_same_length) simp
  have sum1: "np_binop (+)
      (map2 (+) (map (\<lambda>v. v\<^sup>2) (map (\<lambda>v. v / dt s) (map2 (-) (height s) (height_nm1 s))))
             (map (\<lambda>v. (C s)\<^sup>2 * v\<^sup>2) dudx))
      (map (\<lambda>v. v\<^sup>2) (height s)) = Inr density"
  proof -
    have "map2 (+) (map2 (+) (map (\<lambda>v. v\<^sup>2) (map (\<lambda>v. v / dt s) (map2 (-) (height s) (height_nm1 s))))
                     (map (\<lambda>v. (C s)\<^sup>2 * v\<^sup>2) dudx))
           (map (\<lambda>v. v\<^sup>2) (height s)) = density"
      unfolding density_def energy_density_at_def
      using assms(2) dudx(2) by (intro energy_density_pointwise) simp_all
    moreover have "np_binop (+)
      (map2 (+) (map (\<lambda>v. v\<^sup>2) (map (\<lambda>v. v / dt s) (map2 (-) (height s) (height_nm1 s))))
             (map (\<lambda>v. (C s)\<^sup>2 * v\<^sup>2) dudx))
      (map (\<lambda>v. v\<^sup>2) (height s)) =
      Inr (map2 (+) (map2 (+) (map (\<lambda>v. v\<^sup>2) (map (\<lambda>v. v / dt s) (map2 (-) (height s) (height_nm1 s))))
                     (map (\<lambda>v. (C s)\<^sup>2 * v\<^sup>2) dudx))
           (map (\<lambda>v. v\<^sup>2) (height s)))"
      using assms(2) dudx(2) by (intro np_binop_same_length) simp
    ultimately show ?thesis by simp
  qed
  have "energy g q s = Inr (integral / 2)"
    unfolding energy_def Let_def
    by (simp only: diff dudx(1) d2(1) space sum0 sum1 integral bindE_Inr) simp
  then show ?thesis
    using dudx integral by (auto simp: density_def)
qed

lemma gradient_like_model: "gradient_like gradient_model"
  by (simp add: gradient_like_def gradient_model_def)

lemma quadrature_like_model: "quadrature_like simpson_model"
proof -
  have "\<exists>v. simpson_model y x = Inr v" if "length y = length x \<and> 2 \<le> length y" for y x
  proof -
    have "\<not> isl (simpson_model y x)"
      using that by (auto simp add: simpson_model_def)
    then show ?thesis
      by (cases "simpson_model y x") simp_all
  qed
  then show ?thesis
    unfolding quadrature_like_def by blast
qed

lemma gradient_example:
  "gradient_model (height (stepped example_forced)) (x_mesh (stepped example_forced)) =
     Inr [1 - exp (- (1 / 2)), 0, exp (- (1 / 2)) - 1, 0, 1 - exp (- (1 / 2))]"
  by (simp add: stepped_example_forced gradient_model_def Let_def upt_rec eval_nat_numeral)

lemma density_example:
  "map (energy_density_at (stepped example_forced)
          [1 - exp (- (1 / 2)), 0, exp (- (1 / 2)) - 1, 0, 1 - exp (- (1 / 2))]) [0..<5] =
     [(1 - exp (- (1 / 2)))\<^sup>2, 2 * (1 - exp (- (1 / 2)))\<^sup>2, (1 - exp (- (1 / 2)))\<^sup>2,
      2 * (1 - exp (- (1 / 2)))\<^sup>2, (1 - exp (- (1 / 2)))\<^sup>2]"
  by (simp add: stepped_example_forced energy_density_at_def upt_rec eval_nat_numeral)
    (simp add: algebra_simps)

lemma simpson_example:
  "simpson_model [a, 2 * a, a, 2 * a, a] [0, 1, 2, 3, 4] = Inr (20 * a / 3)"
  by (simp add: simpson_model_def Let_def)

lemma bindE_assoc: "bindE (bindE m f) g = bindE m (\<lambda>x. bindE (f x) g)"
  by (cases m) simp_all

lemma heap_get_observation_view: "heap_get_observation h self = get_observation (view h self)"
  by (simp add: heap_get_observation_def get_observation_def view_def)

lemma for_each_lift:
  assumes "\<And>i xs. heap_body i (h\<lparr>cells := (cells h)(r := xs)\<rparr>) =
             bindE (body i xs) (\<lambda>ys. Inr (h\<lparr>cells := (cells h)(r := ys)\<rparr>))"
  shows "for_each heap_body is (h\<lparr>cells := (cells h)(r := xs)\<rparr>) =
         bindE (for_each body is xs) (\<lambda>ys. Inr (h\<lparr>cells := (cells h)(r := ys)\<rparr>))"
proof (induction "is" arbitrary: xs)
  case Nil
  then show ?case by simp
next
  case (Cons i "is")
  show ?case
  proof (cases "body i xs")
    case (Inl e)
    then show ?thesis
      by (simp only: for_each.simps assms bindE_Inl)
  next
    case (Inr ys)
    then show ?thesis
      by (simp only: for_each.simps assms bindE_Inr Cons.IH)
  qed
qed

lemma heap_single_step_body_lift:
  assumes "self_height self \<noteq> self_height_n self" and "self_height self \<noteq> self_height_nm1 self"
    and "self_height self \<noteq> self_x_mesh self" and "self_height self \<noteq> self_force_locations self"
    and "self_height self \<noteq> self_force_vals self"
  shows "heap_single_step_body self i (h\<lparr>cells := (cells h)(self_height self := xs)\<rparr>) =
         bindE (single_step_body (view h self) i xs)
           (\<lambda>ys. Inr (h\<lparr>cells := (cells h)(self_height self := ys)\<rparr>))"
  using assms
  by (simp add: heap_single_step_body_def single_step_body_def heap_get_def heap_set_def
      heap_impulse_term_def impulse_term_def view_def bindE_assoc)


lemma for_each_lift_heap:
  assumes "\<And>i xs. heap_body i (h\<lparr>cells := (cells h)(r := xs)\<rparr>) =
             bindE (body i xs) (\<lambda>ys. Inr (h\<lparr>cells := (cells h)(r := ys)\<rparr>))"
  shows "for_each heap_body is h =
         bindE (for_each body is (cells h r)) (\<lambda>ys. Inr (h\<lparr>cells := (cells h)(r := ys)\<rparr>))"
  using for_each_lift [of heap_body h r body "is" "cells h r", OF assms] by simp

lemma heap_single_step_lift:
  assumes "distinct (refs self)"
  shows "heap_single_step h self =
     bindE (single_step (view h self)) (\<lambda>s'.
       Inr (h\<lparr>cells := (cells h)(self_height self := height s',
                                   self_height_nm1 self := height_nm1 s',
                                   self_height_n self := height_n s')\<rparr>,
            self\<lparr>self_t := t s', self_n := n s'\<rparr>))"
proof -
  define self2 where "self2 = self\<lparr>self_t := self_t self + self_dt self, self_n := self_n self + 1\<rparr>"
  have d: "self_height self2 \<noteq> self_height_n self2" "self_height self2 \<noteq> self_height_nm1 self2"
    "self_height self2 \<noteq> self_x_mesh self2" "self_height self2 \<noteq> self_force_locations self2"
    "self_height self2 \<noteq> self_force_vals self2" "self_height_n self2 \<noteq> self_height_nm1 self2"
    using assms by (auto simp: refs_def self2_def)
  have loop: "for_each (heap_single_step_body self2) is h =
      bindE (for_each (single_step_body (view h self2)) is (cells h (self_height self2)))
        (\<lambda>ys. Inr (h\<lparr>cells := (cells h)(self_height self2 := ys)\<rparr>))" for "is"
    by (rule for_each_lift_heap) (rule heap_single_step_body_lift [OF d(1-5)])
  show ?thesis
    unfolding heap_single_step_def single_step_def Let_def
    using d [unfolded self2_def]
    by (simp add: loop [unfolded self2_def] bindE_assoc heap_set_def heap_assign_all_def
        view_def)
qed


lemma heap_reset_initial_body_lift:
  assumes "self_height_n self \<noteq> self_x_mesh self"
  shows "heap_reset_initial_body self i (h\<lparr>cells := (cells h)(self_height_n self := xs)\<rparr>) =
         bindE (reset_initial_body (view h self) i xs)
           (\<lambda>ys. Inr (h\<lparr>cells := (cells h)(self_height_n self := ys)\<rparr>))"
  using assms
  by (simp add: heap_reset_initial_body_def reset_initial_body_def heap_get_def heap_set_def
      view_def bindE_assoc)

lemma heap_reset_first_body_lift:
  assumes "self_height self \<noteq> self_height_n self"
    and "self_height self \<noteq> self_x_mesh self" and "self_height self \<noteq> self_force_locations self"
    and "self_height self \<noteq> self_force_vals self"
  shows "heap_reset_first_body self i (h\<lparr>cells := (cells h)(self_height self := xs)\<rparr>) =
         bindE (reset_first_body (view h self) i xs)
           (\<lambda>ys. Inr (h\<lparr>cells := (cells h)(self_height self := ys)\<rparr>))"
  using assms
  by (simp add: heap_reset_first_body_def reset_first_body_def heap_get_def heap_set_def
      heap_impulse_term_def impulse_term_def view_def bindE_assoc)

lemma fun_upd_rewritten:
  "f(a := x, b := y, c := w, a := z) = f(b := y, c := w, a := z)"
  by (rule ext) simp

lemma heap_reset_lift:
  assumes "distinct [self_height self, self_height_n self, self_height_nm1 self,
             self_x_mesh self, self_force_locations self]"
    and "\<forall>r \<in> set [self_height self, self_height_n self, self_height_nm1 self,
             self_x_mesh self, self_force_locations self]. r < fresh h"
  shows "heap_reset h self =
     bindE (reset (view h self)) (\<lambda>s'.
       Inr (h\<lparr>fresh := Suc (fresh h),
              cells := (cells h)(fresh h := force_vals s',
                                   self_height self := height s',
                                   self_height_nm1 self := height_nm1 s',
                                   self_height_n self := height_n s')\<rparr>,
            self\<lparr>self_t := t s', self_n := n s', self_force_vals := fresh h\<rparr>))"
proof (cases "np_zeros (self_num_force_points self)")
  case (Inl e)
  then show ?thesis
    by (simp add: heap_reset_def reset_def view_def)
next
  case (Inr z)
  define self2 where "self2 = self\<lparr>self_t := 0, self_n := 0, self_force_vals := fresh h\<rparr>"
  define h1 where "h1 = h\<lparr>cells := (cells h)(fresh h := z), fresh := Suc (fresh h)\<rparr>"
  have d: "self_height self \<noteq> self_height_n self" "self_height self \<noteq> self_height_nm1 self"
    "self_height self \<noteq> self_x_mesh self" "self_height self \<noteq> self_force_locations self"
    "self_height_n self \<noteq> self_height_nm1 self" "self_height_n self \<noteq> self_x_mesh self"
    "self_height_n self \<noteq> self_force_locations self"
    "self_height_nm1 self \<noteq> self_x_mesh self"
    "self_height_nm1 self \<noteq> self_force_locations self"
    "self_x_mesh self \<noteq> self_force_locations self"
    "self_height self \<noteq> fresh h" "self_height_n self \<noteq> fresh h"
    "self_height_nm1 self \<noteq> fresh h" "self_x_mesh self \<noteq> fresh h"
    "self_force_locations self \<noteq> fresh h"
    using assms by auto
  have loop1: "for_each (heap_reset_initial_body self2) is h' =
      bindE (for_each (reset_initial_body (view h' self2)) is (cells h' (self_height_n self2)))
        (\<lambda>ys. Inr (h'\<lparr>cells := (cells h')(self_height_n self2 := ys)\<rparr>))" for "is" h'
    using d by (intro for_each_lift_heap heap_reset_initial_body_lift) (simp add: self2_def)
  have loop2: "for_each (heap_reset_first_body self2) is h' =
      bindE (for_each (reset_first_body (view h' self2)) is (cells h' (self_height self2)))
        (\<lambda>ys. Inr (h'\<lparr>cells := (cells h')(self_height self2 := ys)\<rparr>))" for "is" h'
    using d by (intro for_each_lift_heap heap_reset_first_body_lift) (simp_all add: self2_def)
  show ?thesis
    unfolding heap_reset_def reset_def Let_def
    using d Inr
    by (simp add: loop1 [unfolded self2_def] loop2 [unfolded self2_def] bindE_assoc
        new_array_def heap_set_def heap_assign_all_def view_def fun_upd_rewritten)
qed


lemma consistent_force_vals:
  assumes "consistent config s"
  shows "consistent config (s\<lparr>force_vals := xs\<rparr>)"
  using assms by (auto simp: consistent_def same_static_def)

lemma consistent_after_single_step:
  assumes "consistent config s" and "single_step s = Inr s'"
  shows "consistent config s'"
proof -
  have "s' = stepped s"
    using assms(2) consistent_single_step [OF assms(1)] by (simp split: if_splits)
  then show ?thesis
    using assms(1) by (simp add: consistent_stepped)
qed

lemma consistent_statics:
  assumes "consistent config s" and "consistent config s'"
  shows "same_static s' s"
  using assms by (simp add: consistent_def same_static_def)

lemma view_cong:
  assumes "\<forall>r \<in> set (refs self). cells h' r = cells h r"
  shows "view h' self = view h self"
  using assms by (simp add: view_def refs_def)

lemma heap_single_step_sim:
  assumes "owns h self" and "consistent config (view h self)"
  shows "case heap_single_step h self of
           Inl e \<Rightarrow> single_step (view h self) = Inl e
         | Inr (h', self') \<Rightarrow>
             single_step (view h self) = Inr (view h' self') \<and> refs self' = refs self \<and>
             fresh h' = fresh h \<and> (\<forall>r. r \<notin> set (refs self) \<longrightarrow> cells h' r = cells h r)"
proof (cases "single_step (view h self)")
  case (Inl e)
  then show ?thesis
    using assms(1) by (simp add: heap_single_step_lift owns_def)
next
  case (Inr s')
  have d: "distinct (refs self)"
    using assms(1) by (simp add: owns_def)
  have c: "consistent config s'"
    using assms(2) Inr by (rule consistent_after_single_step)
  have st: "same_static s' (view h self)"
    using assms(2) c by (rule consistent_statics)
  have fv: "force_vals s' = force_vals (view h self)"
    using Inr consistent_single_step [OF assms(2)] by (auto simp: stepped_def split: if_splits)
  define h' where "h' = h\<lparr>cells := (cells h)(self_height self := height s',
                                   self_height_nm1 self := height_nm1 s',
                                   self_height_n self := height_n s')\<rparr>"
  define self' where "self' = self\<lparr>self_t := t s', self_n := n s'\<rparr>"
  have step: "heap_single_step h self = Inr (h', self')"
    using d Inr by (simp add: heap_single_step_lift h'_def self'_def)
  have "view h' self' = s'"
    using d st fv
    by (intro same_static_eq [symmetric])
       (auto simp: view_def h'_def self'_def refs_def same_static_def)
  moreover have "refs self' = refs self" "fresh h' = fresh h"
    "\<forall>r. r \<notin> set (refs self) \<longrightarrow> cells h' r = cells h r"
    by (auto simp: refs_def self'_def h'_def)
  ultimately show ?thesis
    using Inr step by simp
qed

lemma heap_take_in_action_sim:
  assumes "owns h self"
  shows "\<exists>h' self'. heap_take_in_action h self a = Inr (h', self') \<and>
           view h' self' = (view h self)\<lparr>force_vals := cells h a\<rparr> \<and>
           owns h' self' \<and> fresh h' = Suc (fresh h) \<and>
           set (refs self') \<subseteq> insert (fresh h) (set (refs self)) \<and>
           (\<forall>r. r \<noteq> fresh h \<longrightarrow> cells h' r = cells h r)"
proof -
  have "\<forall>r \<in> set (refs self). r \<noteq> fresh h"
    using assms by (auto simp: owns_def)
  then show ?thesis
    using assms
    by (auto simp: heap_take_in_action_def new_array_def view_def owns_def refs_def less_Suc_eq)
qed


lemma heap_init_Inl:
  assumes "\<not> constructible config"
  shows "isl (heap_init config h)"
proof -
  define Nx0 where "Nx0 = cfg_num_lattice_points config"
  define Nf0 where "Nf0 = cfg_num_force_points config"
  define len where "len = cfg_system_length config"
  consider "Nf0 + 2 < 0" | "0 \<le> Nf0 + 2" "Nx0 = 0" | "0 \<le> Nf0 + 2" "Nx0 < -1"
    | "0 \<le> Nf0 + 2" "Nx0 = -1 \<or> 1 \<le> Nx0" "len = 0"
    | "0 \<le> Nf0 + 2" "Nx0 = -1" "len \<noteq> 0"
    | "Nf0 = -1 \<or> Nf0 = -2" "1 \<le> Nx0" "len \<noteq> 0"
    using assms unfolding constructible_def Nx0_def Nf0_def len_def
    by atomize_elim arith
  then show ?thesis
  proof cases
    case 1
    then show ?thesis
      by (simp add: heap_init_def Let_def np_linspace_def Nf0_def)
  next
    case 2
    then show ?thesis
      by (simp add: heap_init_def Let_def np_linspace_def py_div_def new_array_def
          Nx0_def Nf0_def)
  next
    case 3
    then show ?thesis
      by (simp add: heap_init_def Let_def np_linspace_def py_div_def new_array_def
          Nx0_def Nf0_def)
  next
    case 4
    then show ?thesis
      by (auto simp add: heap_init_def Let_def np_linspace_def py_div_def new_array_def
          Nx0_def Nf0_def len_def)
  next
    case 5
    then show ?thesis
      by (simp add: heap_init_def Let_def np_linspace_def py_div_def py_get_def py_index_def
          heap_get_def new_array_def Nx0_def Nf0_def len_def)
  next
    case 6
    then have "np_zeros Nf0 = Inl ValueError"
      by (auto simp: np_zeros_def)
    with 6 show ?thesis
      by (auto simp add: heap_init_def Let_def np_linspace_def py_div_def py_get_def
          py_index_def heap_get_def new_array_def heap_reset_def Nx0_def Nf0_def len_def
          np_zeros_def)
  qed
qed


lemma heap_init_sim:
  assumes "constructible config"
  shows "\<exists>h' self. heap_init config h = Inr (h', self) \<and> view h' self = rest_state config \<and>
           owns h' self \<and> fresh h \<le> fresh h' \<and> (\<forall>r \<in> set (refs self). fresh h \<le> r) \<and>
           (\<forall>r. r < fresh h \<longrightarrow> cells h' r = cells h r)"
proof -
  define m where "m = nat (cfg_num_lattice_points config)"
  define f where "f = nat (cfg_num_force_points config)"
  define len where "len = cfg_system_length config"
  define a where "a = fresh h"
  have Nx: "cfg_num_lattice_points config = int m" and m: "1 \<le> m"
    and Nf: "cfg_num_force_points config = int f"
    and L: "len \<noteq> 0"
    using assms by (auto simp: constructible_def m_def f_def len_def)
  have pts: "np_linspace 0 len (int f + 2) =
      Inr (map (\<lambda>k. real k * (len / real_of_int (int f + 1))) [0..<Suc (Suc f)])"
    by (simp add: np_linspace_def nat_add_distrib del: upt_Suc)
  have locs: "py_slice (map (\<lambda>k. real k * (len / real_of_int (int f + 1))) [0..<Suc (Suc f)])
      1 (int f + 1) = map (force_site config) [0..<f]"
    unfolding py_slice_linspace by (simp add: force_site_def Nf len_def)
  define h1 where "h1 = h\<lparr>cells := (cells h)(a := map (force_site config) [0..<f]),
      fresh := Suc a\<rparr>"
  have n1: "new_array h (map (force_site config) [0..<f]) = (h1, a)"
    by (simp add: new_array_def h1_def a_def)
  have dx0: "py_div len (real_of_int (int m)) = Inr (len / real m)"
    using m by (simp add: py_div_def)
  have mesh: "np_linspace 0 len (int m + 1) = Inr (map (mesh_point config) [0..<Suc m])"
    using m by (simp add: np_linspace_def nat_add_distrib mesh_point_def Nx len_def del: upt_Suc)
  define h2 where "h2 = h1\<lparr>cells := (cells h1)(Suc a := map (mesh_point config) [0..<Suc m]),
      fresh := Suc (Suc a)\<rparr>"
  have n2: "new_array h1 (map (mesh_point config) [0..<Suc m]) = (h2, Suc a)"
    by (simp add: new_array_def h1_def h2_def)
  have courant: "py_div (cfg_wave_speed config * cfg_time_interval config) (len / real m) =
      Inr (cfg_wave_speed config * cfg_time_interval config / (len / real m))"
    using m L by (simp add: py_div_def)
  have x1: "heap_get h2 (Suc a) 1 = Inr (mesh_point config 1)"
    and x0: "heap_get h2 (Suc a) 0 = Inr (mesh_point config 0)"
    using m by (simp_all add: heap_get_def h2_def py_get_in_range nth_append del: upt_Suc)
  have zeros: "np_zeros (int m + 1) = Inr (replicate (Suc m) 0)"
    by (simp add: np_zeros_def nat_add_distrib del: replicate_Suc)
  define h3 where "h3 = h2\<lparr>cells := (cells h2)(Suc (Suc a) := replicate (Suc m) 0),
      fresh := Suc (Suc (Suc a))\<rparr>"
  define h4 where "h4 = h3\<lparr>cells := (cells h3)(Suc (Suc (Suc a)) := replicate (Suc m) 0),
      fresh := Suc (Suc (Suc (Suc a)))\<rparr>"
  define h5 where "h5 = h4\<lparr>cells := (cells h4)(Suc (Suc (Suc (Suc a))) := replicate (Suc m) 0),
      fresh := Suc (Suc (Suc (Suc (Suc a))))\<rparr>"
  have n3: "new_array h2 (replicate (Suc m) 0) = (h3, Suc (Suc a))"
    and n4: "new_array h3 (replicate (Suc m) 0) = (h4, Suc (Suc (Suc a)))"
    and n5: "new_array h4 (replicate (Suc m) 0) = (h5, Suc (Suc (Suc (Suc a))))"
    by (simp_all add: new_array_def h2_def h3_def h4_def h5_def)
  define obj0 where "obj0 =
      \<lparr>self_dt = cfg_time_interval config, self_c_speed = cfg_wave_speed config,
       self_L = len, self_Nx = int m, self_num_force_points = int f,
       self_force_locations = a, self_force_width = cfg_force_width config * len,
       self_dx = mesh_point config 1 - mesh_point config 0, self_x_mesh = Suc a,
       self_C = cfg_wave_speed config * cfg_time_interval config / (len / real m),
       self_C2 = (cfg_wave_speed config * cfg_time_interval config / (len / real m))\<^sup>2,
       self_height = Suc (Suc a), self_height_n = Suc (Suc (Suc a)),
       self_height_nm1 = Suc (Suc (Suc (Suc a))),
       self_height_traj = [], self_action_traj = [], self_t = 0, self_n = 0,
       self_force_vals = 0\<rparr>"
  have init: "heap_init config h = heap_reset h5 obj0"
    by (simp only: heap_init_def Let_def Nx Nf len_def [symmetric] pts locs n1 dx0 mesh n2 courant
        x1 x0 zeros n3 n4 n5 obj0_def bindE_Inr prod.case)
  have cells5: "cells h5 a = map (force_site config) [0..<f]"
    "cells h5 (Suc a) = map (mesh_point config) [0..<Suc m]"
    "cells h5 (Suc (Suc a)) = replicate (Suc m) 0"
    "cells h5 (Suc (Suc (Suc a))) = replicate (Suc m) 0"
    "cells h5 (Suc (Suc (Suc (Suc a)))) = replicate (Suc m) 0"
    "fresh h5 = Suc (Suc (Suc (Suc (Suc a))))"
    by (simp_all add: h1_def h2_def h3_def h4_def h5_def)
  have old: "cells h5 r = cells h r" if "r < a" for r
    using that by (simp add: h1_def h2_def h3_def h4_def h5_def)
  have shape: "1 \<le> Nx (view h5 obj0)" "length (x_mesh (view h5 obj0)) = Suc (nat (Nx (view h5 obj0)))"
    "length (height (view h5 obj0)) = Suc (nat (Nx (view h5 obj0)))"
    "length (height_n (view h5 obj0)) = Suc (nat (Nx (view h5 obj0)))"
    "length (height_nm1 (view h5 obj0)) = Suc (nat (Nx (view h5 obj0)))"
    "0 \<le> num_force_points (view h5 obj0)"
    "length (force_locations (view h5 obj0)) = nat (num_force_points (view h5 obj0))"
    using m by (simp_all add: view_def obj0_def cells5 del: upt_Suc replicate_Suc)
  have "reset (view h5 obj0) = Inr ((view h5 obj0)\<lparr>t := 0, n := 0,
           force_vals := replicate (nat (num_force_points (view h5 obj0))) 0,
           height_n := replicate (Suc (nat (Nx (view h5 obj0)))) 0,
           height := replicate (Suc (nat (Nx (view h5 obj0)))) 0,
           height_nm1 := replicate (Suc (nat (Nx (view h5 obj0)))) 0\<rparr>)"
    using shape by (rule reset_Inr)
  also have "(view h5 obj0)\<lparr>t := 0, n := 0,
           force_vals := replicate (nat (num_force_points (view h5 obj0))) 0,
           height_n := replicate (Suc (nat (Nx (view h5 obj0)))) 0,
           height := replicate (Suc (nat (Nx (view h5 obj0)))) 0,
           height_nm1 := replicate (Suc (nat (Nx (view h5 obj0)))) 0\<rparr> = rest_state config"
    by (simp add: view_def obj0_def cells5 rest_state_def Nx Nf len_def
        del: upt_Suc replicate_Suc)
  finally have reset: "reset (view h5 obj0) = Inr (rest_state config)" .
  define h' where "h' = h5\<lparr>fresh := Suc (fresh h5),
      cells := (cells h5)(fresh h5 := force_vals (rest_state config),
                          self_height obj0 := height (rest_state config),
                          self_height_nm1 obj0 := height_nm1 (rest_state config),
                          self_height_n obj0 := height_n (rest_state config))\<rparr>"
  define self where "self = obj0\<lparr>self_t := t (rest_state config), self_n := n (rest_state config),
      self_force_vals := fresh h5\<rparr>"
  have "heap_reset h5 obj0 =
     bindE (reset (view h5 obj0)) (\<lambda>s'.
       Inr (h5\<lparr>fresh := Suc (fresh h5),
              cells := (cells h5)(fresh h5 := force_vals s',
                                   self_height obj0 := height s',
                                   self_height_nm1 obj0 := height_nm1 s',
                                   self_height_n obj0 := height_n s')\<rparr>,
            obj0\<lparr>self_t := t s', self_n := n s', self_force_vals := fresh h5\<rparr>))"
    by (rule heap_reset_lift) (simp_all add: obj0_def cells5)
  then have "heap_reset h5 obj0 = Inr (h', self)"
    by (simp only: reset bindE_Inr h'_def self_def)
  then have res: "heap_init config h = Inr (h', self)"
    using init by simp
  have v: "view h' self = rest_state config"
    by (simp add: view_def h'_def self_def obj0_def cells5 rest_state_def Nx Nf len_def
        del: upt_Suc replicate_Suc)
  have o: "owns h' self" "fresh h \<le> fresh h'" "\<forall>r \<in> set (refs self). fresh h \<le> r"
    by (simp_all add: owns_def refs_def h'_def self_def obj0_def cells5 a_def)
  have fr: "\<forall>r. r < fresh h \<longrightarrow> cells h' r = cells h r"
    using old by (auto simp: h'_def obj0_def cells5 a_def)
  show ?thesis
    using res v o fr by blast
qed


lemma who_all: "(\<forall>p. P p) \<longleftrightarrow> P First \<and> P Second"
  by (metis who.exhaust)

lemma world_ok_iff:
  "world_ok config w \<longleftrightarrow>
     (\<forall>p. owns (w_heap w) (instance_of p w) \<and>
          consistent config (view (w_heap w) (instance_of p w))) \<and>
     (\<forall>p q. p \<noteq> q \<longrightarrow> set (refs (instance_of p w)) \<inter> set (refs (instance_of q w)) = {}) \<and>
     (\<forall>r \<in> set (w_buffers w). r < fresh (w_heap w) \<and> (\<forall>p. r \<notin> set (refs (instance_of p w))))"
  by (auto simp add: world_ok_def who_all)

lemma returned_simps:
  "instance_of p (returned q (h', self') w) = (if p = q then self' else instance_of p w)"
  "w_heap (returned q (h', self') w) = h'"
  "w_buffers (returned q (h', self') w) = w_buffers w"
  by (cases p; cases q; simp)+

lemma world_ok_returned:
  assumes ok: "world_ok config w"
    and own: "owns h' self'" and con: "consistent config (view h' self')"
    and fresh: "fresh (w_heap w) \<le> fresh h'"
    and new: "\<forall>r \<in> set (refs self'). r \<in> set (refs (instance_of q w)) \<or> fresh (w_heap w) \<le> r"
    and frame: "\<forall>r. r < fresh (w_heap w) \<and> r \<notin> set (refs (instance_of q w)) \<longrightarrow>
                 cells h' r = cells (w_heap w) r"
  shows "world_ok config (returned q (h', self') w)"
    and "p \<noteq> q \<Longrightarrow> view h' (instance_of p w) = view (w_heap w) (instance_of p w)"
proof -
  have other: "view h' (instance_of p w) = view (w_heap w) (instance_of p w)
      \<and> owns h' (instance_of p w)
      \<and> set (refs (instance_of p w)) \<inter> set (refs self') = {}" if "p \<noteq> q" for p
  proof -
    have disj: "set (refs (instance_of p w)) \<inter> set (refs (instance_of q w)) = {}"
      and below: "\<forall>r \<in> set (refs (instance_of p w)). r < fresh (w_heap w)"
      and dist: "distinct (refs (instance_of p w))"
      using ok that by (simp_all add: world_ok_iff owns_def)
    have "\<forall>r \<in> set (refs (instance_of p w)). cells h' r = cells (w_heap w) r"
      using disj below frame by auto
    then have "view h' (instance_of p w) = view (w_heap w) (instance_of p w)"
      by (rule view_cong)
    moreover have "owns h' (instance_of p w)"
      using below dist fresh by (auto simp: owns_def)
    moreover have "set (refs (instance_of p w)) \<inter> set (refs self') = {}"
      using disj below new by fastforce
    ultimately show ?thesis by simp
  qed
  then show "p \<noteq> q \<Longrightarrow> view h' (instance_of p w) = view (w_heap w) (instance_of p w)"
    by simp
  have bufs: "r < fresh h' \<and> (\<forall>p. r \<notin> set (refs (instance_of p (returned q (h', self') w))))"
    if "r \<in> set (w_buffers w)" for r
  proof -
    have r: "r < fresh (w_heap w)" "\<forall>p. r \<notin> set (refs (instance_of p w))"
      using ok that by (simp_all add: world_ok_iff)
    then have "r \<notin> set (refs self')"
      using new by auto
    then show ?thesis
      using r fresh by (auto simp: returned_simps)
  qed
  have "consistent config (view (w_heap w) (instance_of p w))" for p
    using ok by (simp add: world_ok_iff)
  moreover have "set (refs (instance_of p w)) \<inter> set (refs (instance_of p' w)) = {}"
    if "p \<noteq> p'" for p p'
    using ok that by (simp add: world_ok_iff)
  ultimately show "world_ok config (returned q (h', self') w)"
    unfolding world_ok_iff [of config "returned q (h', self') w"]
    using other own con bufs by (auto simp: returned_simps Int_commute)
qed


lemma consistent_do_call:
  assumes "consistent config s" and "do_call s c = Inr s'"
  shows "consistent config s'"
proof (cases c)
  case (Take_in_action xs)
  then have "s' = s\<lparr>force_vals := xs\<rparr>"
    using assms(2) by (simp add: take_in_action_def)
  then show ?thesis
    using assms(1) by (simp add: consistent_force_vals)
next
  case Single_step
  then show ?thesis
    using assms by (auto intro: consistent_after_single_step)
qed

lemma after_call_facts:
  assumes ok: "world_ok config w"
    and sim: "case result of
        Inl e \<Rightarrow> do_call (view (w_heap w) (instance_of q w)) seen = Inl e
      | Inr (h', self') \<Rightarrow>
          do_call (view (w_heap w) (instance_of q w)) seen = Inr (view h' self') \<and>
          owns h' self' \<and> fresh (w_heap w) \<le> fresh h' \<and>
          (\<forall>r \<in> set (refs self'). r \<in> set (refs (instance_of q w)) \<or> fresh (w_heap w) \<le> r) \<and>
          (\<forall>r. r < fresh (w_heap w) \<and> r \<notin> set (refs (instance_of q w)) \<longrightarrow>
               cells h' r = cells (w_heap w) r)"
  shows "\<exists>res wopt. after_call q seen result w = ((q, seen, res), wopt) \<and>
     (case res of
        Inl e \<Rightarrow> wopt = None \<and> observations (view (w_heap w) (instance_of q w)) [seen] = [Inl e]
      | Inr obs \<Rightarrow>
          (\<exists>w'. wopt = Some w' \<and> world_ok config w' \<and>
             (\<forall>cs. observations (view (w_heap w) (instance_of q w)) (seen # cs) =
                    Inr obs # observations (view (w_heap w') (instance_of q w')) cs) \<and>
             (\<forall>p. p \<noteq> q \<longrightarrow> view (w_heap w') (instance_of p w') =
                                view (w_heap w) (instance_of p w))))"
proof (cases result)
  case (Inl e)
  then show ?thesis
    using sim by (simp add: after_call_def)
next
  case (Inr pair)
  obtain h' self' where pair: "pair = (h', self')"
    by (cases pair)
  have call: "do_call (view (w_heap w) (instance_of q w)) seen = Inr (view h' self')"
    and own: "owns h' self'" and fresh: "fresh (w_heap w) \<le> fresh h'"
    and new: "\<forall>r \<in> set (refs self'). r \<in> set (refs (instance_of q w)) \<or> fresh (w_heap w) \<le> r"
    and frame: "\<forall>r. r < fresh (w_heap w) \<and> r \<notin> set (refs (instance_of q w)) \<longrightarrow>
               cells h' r = cells (w_heap w) r"
    using sim Inr pair by simp_all
  have "consistent config (view (w_heap w) (instance_of q w))"
    using ok by (simp add: world_ok_iff)
  then have con: "consistent config (view h' self')"
    using call by (rule consistent_do_call)
  show ?thesis
  proof (cases "get_observation (view h' self')")
    case (Inl e)
    then show ?thesis
      using Inr pair call by (simp add: after_call_def heap_get_observation_view)
  next
    case obs: (Inr obs)
    have "world_ok config (returned q (h', self') w)"
      using ok own con fresh new frame by (rule world_ok_returned)
    moreover have "view h' (instance_of p w) = view (w_heap w) (instance_of p w)"
      if "p \<noteq> q" for p
      using ok own con fresh new frame that by (rule world_ok_returned)
    ultimately show ?thesis
      using Inr pair call obs
      by (simp add: after_call_def heap_get_observation_view returned_simps)
  qed
qed


lemma instance_of_heap_update [simp]:
  "instance_of p (w\<lparr>w_heap := h', w_buffers := bs\<rparr>) = instance_of p w"
  "instance_of p (w\<lparr>w_heap := h'\<rparr>) = instance_of p w"
  by (cases p; simp)+

lemma world_ok_frame:
  assumes ok: "world_ok config w" and fresh: "fresh (w_heap w) \<le> fresh h'"
    and frame: "\<forall>p. \<forall>r \<in> set (refs (instance_of p w)). cells h' r = cells (w_heap w) r"
    and bufs: "\<forall>r \<in> set bs. r < fresh h' \<and> (\<forall>p. r \<notin> set (refs (instance_of p w)))"
  shows "world_ok config (w\<lparr>w_heap := h', w_buffers := bs\<rparr>)"
    and "view h' (instance_of p w) = view (w_heap w) (instance_of p w)"
proof -
  show v: "view h' (instance_of p w) = view (w_heap w) (instance_of p w)" for p
    using frame by (intro view_cong) simp
  have "owns h' (instance_of p w)" for p
    using ok fresh by (auto simp: world_ok_iff owns_def intro: less_le_trans)
  then show "world_ok config (w\<lparr>w_heap := h', w_buffers := bs\<rparr>)"
    using ok bufs unfolding world_ok_iff [of config "w\<lparr>w_heap := h', w_buffers := bs\<rparr>"]
    by (simp add: v) (simp add: world_ok_iff)
qed

lemma do_event_facts:
  assumes ok: "world_ok config w"
  shows "do_event w ev = (None, None) \<or>
     (\<exists>w'. do_event w ev = (None, Some w') \<and> world_ok config w' \<and>
        (\<forall>p. view (w_heap w') (instance_of p w') = view (w_heap w) (instance_of p w))) \<or>
     (\<exists>q seen res wopt. do_event w ev = (Some (q, seen, res), wopt) \<and>
        (case res of
           Inl e \<Rightarrow> wopt = None \<and>
             observations (view (w_heap w) (instance_of q w)) [seen] = [Inl e]
         | Inr obs \<Rightarrow>
          (\<exists>w'. wopt = Some w' \<and> world_ok config w' \<and>
             (\<forall>cs. observations (view (w_heap w) (instance_of q w)) (seen # cs) =
                    Inr obs # observations (view (w_heap w') (instance_of q w')) cs) \<and>
             (\<forall>p. p \<noteq> q \<longrightarrow> view (w_heap w') (instance_of p w') =
                                view (w_heap w) (instance_of p w)))))"
proof (cases ev)
  case (New_buffer xs)
  define h' where "h' = (w_heap w)\<lparr>cells := (cells (w_heap w))(fresh (w_heap w) := xs),
      fresh := Suc (fresh (w_heap w))\<rparr>"
  define w' where "w' = w\<lparr>w_heap := h', w_buffers := w_buffers w @ [fresh (w_heap w)]\<rparr>"
  have below: "\<forall>p. \<forall>r \<in> set (refs (instance_of p w)). r < fresh (w_heap w)"
    using ok by (simp add: world_ok_iff owns_def)
  have ev: "do_event w ev = (None, Some w')"
    by (simp add: New_buffer do_event_def new_array_def h'_def w'_def)
  have fr: "fresh (w_heap w) \<le> fresh h'"
    by (simp add: h'_def)
  have frame: "\<forall>p. \<forall>r \<in> set (refs (instance_of p w)). cells h' r = cells (w_heap w) r"
    using below by (auto simp: h'_def)
  have bufs: "\<forall>r \<in> set (w_buffers w @ [fresh (w_heap w)]).
      r < fresh h' \<and> (\<forall>p. r \<notin> set (refs (instance_of p w)))"
    using ok below by (auto simp: world_ok_iff h'_def less_Suc_eq)
  have "world_ok config w'"
    unfolding w'_def using ok fr frame bufs by (rule world_ok_frame)
  moreover have "view (w_heap w') (instance_of p w') = view (w_heap w) (instance_of p w)" for p
    using world_ok_frame(2) [OF ok fr frame bufs, of p] by (simp add: w'_def)
  ultimately show ?thesis
    using ev by blast
next
  case (Write_buffer k i v)
  show ?thesis
  proof (cases "k < length (w_buffers w)")
    case False
    then show ?thesis
      by (simp add: Write_buffer do_event_def)
  next
    case True
    define b where "b = w_buffers w ! k"
    have b: "b \<in> set (w_buffers w)"
      using True by (simp add: b_def)
    show ?thesis
    proof (cases "py_set (cells (w_heap w) b) i v")
      case (Inl e)
      then show ?thesis
        using True by (simp add: Write_buffer do_event_def heap_set_def b_def)
    next
      case (Inr xs)
      define h' where "h' = (w_heap w)\<lparr>cells := (cells (w_heap w))(b := xs)\<rparr>"
      define w' where "w' = w\<lparr>w_heap := h', w_buffers := w_buffers w\<rparr>"
      have ev: "do_event w ev = (None, Some w')"
        using True Inr by (simp add: Write_buffer do_event_def heap_set_def b_def h'_def w'_def)
      have fr: "fresh (w_heap w) \<le> fresh h'"
        by (simp add: h'_def)
      have frame: "\<forall>p. \<forall>r \<in> set (refs (instance_of p w)). cells h' r = cells (w_heap w) r"
        using ok b by (auto simp: world_ok_iff h'_def)
      have bufs: "\<forall>r \<in> set (w_buffers w).
          r < fresh h' \<and> (\<forall>p. r \<notin> set (refs (instance_of p w)))"
        using ok by (auto simp: world_ok_iff h'_def)
      have "world_ok config w'"
        unfolding w'_def using ok fr frame bufs by (rule world_ok_frame)
      moreover have "view (w_heap w') (instance_of p w') = view (w_heap w) (instance_of p w)"
        for p
        using world_ok_frame(2) [OF ok fr frame bufs, of p] by (simp add: w'_def)
      ultimately show ?thesis
        using ev by blast
    qed
  qed
next
  case (Call_take_in_action q k)
  show ?thesis
  proof (cases "k < length (w_buffers w)")
    case False
    then show ?thesis
      by (simp add: Call_take_in_action do_event_def)
  next
    case True
    define b where "b = w_buffers w ! k"
    define seen where "seen = Take_in_action (cells (w_heap w) b)"
    have own: "owns (w_heap w) (instance_of q w)"
      using ok by (simp add: world_ok_iff)
    obtain h' self' where
      call: "heap_take_in_action (w_heap w) (instance_of q w) b = Inr (h', self')"
      and v: "view h' self' = (view (w_heap w) (instance_of q w))\<lparr>force_vals := cells (w_heap w) b\<rparr>"
      and own': "owns h' self'" and fr: "fresh h' = Suc (fresh (w_heap w))"
      and sub: "set (refs self') \<subseteq> insert (fresh (w_heap w)) (set (refs (instance_of q w)))"
      and frame: "\<forall>r. r \<noteq> fresh (w_heap w) \<longrightarrow> cells h' r = cells (w_heap w) r"
      using heap_take_in_action_sim [OF own, of b] by blast
    have sim: "case heap_take_in_action (w_heap w) (instance_of q w) b of
        Inl e \<Rightarrow> do_call (view (w_heap w) (instance_of q w)) seen = Inl e
      | Inr (h', self') \<Rightarrow>
          do_call (view (w_heap w) (instance_of q w)) seen = Inr (view h' self') \<and>
          owns h' self' \<and> fresh (w_heap w) \<le> fresh h' \<and>
          (\<forall>r \<in> set (refs self'). r \<in> set (refs (instance_of q w)) \<or> fresh (w_heap w) \<le> r) \<and>
          (\<forall>r. r < fresh (w_heap w) \<and> r \<notin> set (refs (instance_of q w)) \<longrightarrow>
               cells h' r = cells (w_heap w) r)"
      using v own' fr sub frame
      by (auto simp: call seen_def take_in_action_def)
    obtain res wopt where
      "after_call q seen (heap_take_in_action (w_heap w) (instance_of q w) b) w =
         ((q, seen, res), wopt)"
      "case res of
        Inl e \<Rightarrow> wopt = None \<and> observations (view (w_heap w) (instance_of q w)) [seen] = [Inl e]
      | Inr obs \<Rightarrow>
          (\<exists>w'. wopt = Some w' \<and> world_ok config w' \<and>
             (\<forall>cs. observations (view (w_heap w) (instance_of q w)) (seen # cs) =
                    Inr obs # observations (view (w_heap w') (instance_of q w')) cs) \<and>
             (\<forall>p. p \<noteq> q \<longrightarrow> view (w_heap w') (instance_of p w') =
                                view (w_heap w) (instance_of p w)))"
      using after_call_facts [OF ok sim] by blast
    then show ?thesis
      using True unfolding seen_def b_def by (simp add: Call_take_in_action do_event_def)
  qed
next
  case (Call_single_step q)
  have own: "owns (w_heap w) (instance_of q w)"
    and con: "consistent config (view (w_heap w) (instance_of q w))"
    using ok by (simp_all add: world_ok_iff)
  have sim: "case heap_single_step (w_heap w) (instance_of q w) of
        Inl e \<Rightarrow> do_call (view (w_heap w) (instance_of q w)) Single_step = Inl e
      | Inr (h', self') \<Rightarrow>
          do_call (view (w_heap w) (instance_of q w)) Single_step = Inr (view h' self') \<and>
          owns h' self' \<and> fresh (w_heap w) \<le> fresh h' \<and>
          (\<forall>r \<in> set (refs self'). r \<in> set (refs (instance_of q w)) \<or> fresh (w_heap w) \<le> r) \<and>
          (\<forall>r. r < fresh (w_heap w) \<and> r \<notin> set (refs (instance_of q w)) \<longrightarrow>
               cells h' r = cells (w_heap w) r)"
    using heap_single_step_sim [OF own con] own
    by (auto simp: owns_def split: sum.splits)
  obtain res wopt where
    "after_call q Single_step (heap_single_step (w_heap w) (instance_of q w)) w =
       ((q, Single_step, res), wopt)"
    "case res of
      Inl e \<Rightarrow> wopt = None \<and>
        observations (view (w_heap w) (instance_of q w)) [Single_step] = [Inl e]
    | Inr obs \<Rightarrow>
        (\<exists>w'. wopt = Some w' \<and> world_ok config w' \<and>
           (\<forall>cs. observations (view (w_heap w) (instance_of q w)) (Single_step # cs) =
                  Inr obs # observations (view (w_heap w') (instance_of q w')) cs) \<and>
           (\<forall>p. p \<noteq> q \<longrightarrow> view (w_heap w') (instance_of p w') =
                              view (w_heap w) (instance_of p w)))"
    using after_call_facts [OF ok sim] by blast
  then show ?thesis
    by (simp add: Call_single_step do_event_def)
qed


lemma run_events_refines:
  assumes "world_ok config w"
  shows "observed_by p (run_events w evs) =
         observations (view (w_heap w) (instance_of p w)) (calls_of p (run_events w evs))"
  using assms
proof (induction evs arbitrary: w)
  case Nil
  then show ?case
    by (simp add: observed_by_def calls_of_def)
next
  case (Cons ev evs)
  consider (stop) "do_event w ev = (None, None)"
    | (silent) w' where "do_event w ev = (None, Some w')" "world_ok config w'"
        "\<forall>p. view (w_heap w') (instance_of p w') = view (w_heap w) (instance_of p w)"
    | (call) q seen res wopt where "do_event w ev = (Some (q, seen, res), wopt)"
        "case res of
           Inl e \<Rightarrow> wopt = None \<and>
             observations (view (w_heap w) (instance_of q w)) [seen] = [Inl e]
         | Inr obs \<Rightarrow>
          (\<exists>w'. wopt = Some w' \<and> world_ok config w' \<and>
             (\<forall>cs. observations (view (w_heap w) (instance_of q w)) (seen # cs) =
                    Inr obs # observations (view (w_heap w') (instance_of q w')) cs) \<and>
             (\<forall>p. p \<noteq> q \<longrightarrow> view (w_heap w') (instance_of p w') =
                                view (w_heap w) (instance_of p w)))"
    using do_event_facts [OF Cons.prems, of ev] by blast
  then show ?case
  proof cases
    case stop
    then show ?thesis
      by (simp add: observed_by_def calls_of_def)
  next
    case silent
    have "observed_by p (run_events w' evs) =
        observations (view (w_heap w') (instance_of p w')) (calls_of p (run_events w' evs))"
      using silent(2) by (rule Cons.IH)
    then show ?thesis
      using silent(1,3) by (simp add: observed_by_def calls_of_def)
  next
    case call
    show ?thesis
    proof (cases res)
      case (Inl e)
      then have "wopt = None"
        "observations (view (w_heap w) (instance_of q w)) [seen] = [Inl e]"
        using call(2) by simp_all
      then show ?thesis
        using call(1) Inl by (auto simp add: observed_by_def calls_of_def)
    next
      case (Inr obs)
      then obtain w' where w': "wopt = Some w'" "world_ok config w'"
        "\<forall>cs. observations (view (w_heap w) (instance_of q w)) (seen # cs) =
              Inr obs # observations (view (w_heap w') (instance_of q w')) cs"
        "\<forall>p. p \<noteq> q \<longrightarrow> view (w_heap w') (instance_of p w') =
                                view (w_heap w) (instance_of p w)"
        using call(2) by auto
      have IH: "observed_by p (run_events w' evs) =
          observations (view (w_heap w') (instance_of p w')) (calls_of p (run_events w' evs))"
        using w'(2) by (rule Cons.IH)
      show ?thesis
      proof (cases "p = q")
        case True
        then show ?thesis
          using call(1) Inr w'(1,3) IH by (simp add: observed_by_def calls_of_def)
      next
        case False
        then show ?thesis
          using call(1) Inr w'(1,4) IH by (simp add: observed_by_def calls_of_def)
      qed
    qed
  qed
qed

lemma start_world_ok:
  assumes "start_world config h = Inr w"
  shows "world_ok config w" and "view (w_heap w) (instance_of p w) = rest_state config"
proof -
  have c: "constructible config"
  proof (rule ccontr)
    assume "\<not> constructible config"
    then have "isl (heap_init config h)"
      by (rule heap_init_Inl)
    then show False
      using assms by (cases "heap_init config h") (simp_all add: start_world_def)
  qed
  obtain h1 a where a: "heap_init config h = Inr (h1, a)" "view h1 a = rest_state config"
    "owns h1 a"
    using heap_init_sim [OF c, of h] by blast
  obtain h2 b where b: "heap_init config h1 = Inr (h2, b)" "view h2 b = rest_state config"
    "owns h2 b" "fresh h1 \<le> fresh h2" "\<forall>r \<in> set (refs b). fresh h1 \<le> r"
    "\<forall>r. r < fresh h1 \<longrightarrow> cells h2 r = cells h1 r"
    using heap_init_sim [OF c, of h1] by blast
  have w: "w = \<lparr>w_heap = h2, w_first = a, w_second = b, w_buffers = []\<rparr>"
    using assms a(1) b(1) by (simp add: start_world_def)
  have below: "\<forall>r \<in> set (refs a). r < fresh h1"
    using a(3) by (simp add: owns_def)
  then have "\<forall>r \<in> set (refs a). cells h2 r = cells h1 r"
    using b(6) by simp
  then have va: "view h2 a = rest_state config"
    using a(2) view_cong [of a h2 h1] by simp
  have oa: "owns h2 a"
    using a(3) b(4) by (auto simp: owns_def intro: less_le_trans)
  have disj: "set (refs a) \<inter> set (refs b) = {}"
    using below b(5) by fastforce
  have con: "consistent config (rest_state config)"
    using c by (rule consistent_rest_state)
  show "world_ok config w"
    using oa b(3) va b(2) con disj by (simp add: world_ok_def w)
  show "view (w_heap w) (instance_of p w) = rest_state config"
    using va b(2) by (cases p) (simp_all add: w)
qed

lemma start_example: "start_world example_config empty_heap = Inr example_world"
  by (simp add: example_world_def start_world_def heap_init_def example_config_def
      empty_heap_def np_linspace_def py_slice_def py_slice_bound_def py_div_def heap_get_def
      heap_set_def py_get_def py_set_def py_index_def np_zeros_def new_array_def heap_reset_def
      Let_def heap_assign_all_def np_assign_all_def heap_reset_initial_body_def
      heap_reset_first_body_def Initial_Height_def Velocity_0_def heap_impulse_term_def
      np_binop_def upto.simps upt_rec eval_nat_numeral)

lemma run_example:
  "run_events example_world example_events =
     [(First, Take_in_action [1, 0, - 1],
       Inr [ [ [0, 0, 0], [0, 0, 0], [0, 0, 0], [0, 0, 0], [0, 0, 0] ] ]),
      (First, Single_step,
       Inr [ [ [0, 0, 0], [1 - exp (- (1 / 2)), 1 - exp (- (1 / 2)), 0],
             [0, 0, 0], [exp (- (1 / 2)) - 1, exp (- (1 / 2)) - 1, 0],
             [0, 0, 0] ] ]),
      (Second, Take_in_action [1, 0, - 1],
       Inr [ [ [0, 0, 0], [0, 0, 0], [0, 0, 0], [0, 0, 0], [0, 0, 0] ] ]),
      (Second, Single_step,
       Inr [ [ [0, 0, 0], [1 - exp (- (1 / 2)), 1 - exp (- (1 / 2)), 0],
             [0, 0, 0], [exp (- (1 / 2)) - 1, exp (- (1 / 2)) - 1, 0],
             [0, 0, 0] ] ])]"
  by (simp add: example_world_def example_events_def do_event_def after_call_def new_array_def
      heap_take_in_action_def heap_single_step_def heap_single_step_body_def
      heap_get_observation_def heap_get_def heap_set_def py_get_def py_set_def py_index_def
      heap_assign_all_def np_assign_all_def heap_impulse_term_def np_binop_def np_zeros3_def
      assign_column_def Let_def upto.simps upt_rec eval_nat_numeral)

section \<open>The claims\<close>

text \<open>
  C2: in every state of a run (the constructed one and the one after every call of
  \<open>reset\<close>, \<open>single_step\<close> or \<open>take_in_action\<close> that returned, whatever the forcing
  vectors were) the entries 0 and \<open>Nx\<close> of \<open>height\<close>, of \<open>height_n\<close> and of
  \<open>height_nm1\<close> exist and are exactly zero.
\<close>

theorem boundary_zero:
  assumes "reachable config s"
  shows "nat (Nx s) < length (height s) \<and> length (height_n s) = length (height s) \<and>
         length (height_nm1 s) = length (height s) \<and>
         height s ! 0 = 0 \<and> height s ! nat (Nx s) = 0 \<and>
         height_n s ! 0 = 0 \<and> height_n s ! nat (Nx s) = 0 \<and>
         height_nm1 s ! 0 = 0 \<and> height_nm1 s ! nat (Nx s) = 0"
  using reachable_consistent [OF assms] by (simp add: consistent_def)

theorem boundary_zero_witness:
  "reachable example_config (stepped example_forced) \<and>
   height (stepped example_forced) = [0, 1 - exp (- (1 / 2)), 0, exp (- (1 / 2)) - 1, 0] \<and>
   Nx (stepped example_forced) = 4 \<and>
   height (stepped example_forced) ! 0 = 0 \<and> height (stepped example_forced) ! 4 = 0 \<and>
   height_n (stepped example_forced) ! 0 = 0 \<and> height_n (stepped example_forced) ! 4 = 0 \<and>
   height_nm1 (stepped example_forced) ! 0 = 0 \<and> height_nm1 (stepped example_forced) ! 4 = 0"
  using boundary_zero [OF reachable_example_stepped] reachable_example_stepped
  by (simp add: stepped_example_forced)

text \<open>
  C10: in every state of a run \<open>height_n\<close> equals \<open>height\<close>, and \<open>get_observation\<close>
  returns an array whose channels 0 and 1 are both \<open>height\<close> and whose channel 2 is
  \<open>height_nm1\<close>: the observation holds two time levels.
\<close>

theorem height_n_is_height:
  assumes "reachable config s"
  shows "height_n s = height s \<and>
         (\<exists>obs. get_observation s = Inr obs \<and> channel obs 0 = height s \<and>
            channel obs 1 = height s \<and> channel obs 2 = height_nm1 s \<and>
            channel obs 0 = channel obs 1)"
proof -
  have c: "consistent config s"
    using assms by (rule reachable_consistent)
  then have eq: "height_n s = height s"
    by (simp add: consistent_def)
  obtain obs where "get_observation s = Inr obs" "channel obs 0 = height s"
    "channel obs 1 = height_n s" "channel obs 2 = height_nm1 s"
    using get_observation_Inr [of s] consistent_shape [OF c] by auto
  then show ?thesis
    using eq by auto
qed

theorem height_n_is_height_witness:
  "reachable example_config (stepped example_forced) \<and>
   height_n (stepped example_forced) = [0, 1 - exp (- (1 / 2)), 0, exp (- (1 / 2)) - 1, 0] \<and>
   height (stepped example_forced) = [0, 1 - exp (- (1 / 2)), 0, exp (- (1 / 2)) - 1, 0] \<and>
   get_observation (stepped example_forced) =
     Inr [ [ [0, 0, 0],
           [1 - exp (- (1 / 2)), 1 - exp (- (1 / 2)), 0],
           [0, 0, 0],
           [exp (- (1 / 2)) - 1, exp (- (1 / 2)) - 1, 0],
           [0, 0, 0] ] ] \<and>
   channel (projr (get_observation (stepped example_forced))) 0 =
   channel (projr (get_observation (stepped example_forced))) 1"
  using height_n_is_height [OF reachable_example_stepped] reachable_example_stepped
    get_observation_example
  by (auto simp add: stepped_example_forced)

text \<open>
  C1: from a state of a run, a call of \<open>single_step\<close> that returns leaves, at every
  interior index \<open>i\<close>, the value
  \<open>- height_nm1[i] + 2 height_n[i] + C2 (height_n[i-1] - 2 height_n[i] + height_n[i+1]) + dt\<^sup>2 impulse(x[i])\<close>
  of the time levels before the call, zero at index 0 and at index \<open>Nx\<close>, the old
  \<open>height_n\<close> in \<open>height_nm1\<close>, the new \<open>height\<close> in \<open>height_n\<close>, \<open>t\<close> increased by
  \<open>dt\<close> and \<open>n\<close> by one. The call returns whenever \<open>force_vals\<close> has one entry for each
  force point.
\<close>

theorem single_step_update:
  assumes "reachable config s"
  shows "(length (force_vals s) = nat (num_force_points s) \<longrightarrow> (\<exists>s'. single_step s = Inr s')) \<and>
         (\<forall>s'. single_step s = Inr s' \<longrightarrow>
            (\<forall>i. 1 \<le> i \<and> i < nat (Nx s) \<longrightarrow>
               (\<exists>imp. impulse_term s (x_mesh s ! i) = Inr imp \<and>
                  height s' ! i =
                    - (height_nm1 s ! i) + 2 * height_n s ! i
                    + C2 s * (height_n s ! (i - 1) - 2 * height_n s ! i + height_n s ! (i + 1))
                    + (dt s)\<^sup>2 * imp)) \<and>
            height s' ! 0 = 0 \<and> height s' ! nat (Nx s) = 0 \<and>
            height_nm1 s' = height_n s \<and> height_n s' = height s' \<and>
            t s' = t s + dt s \<and> n s' = n s + 1)"
proof -
  have c: "consistent config s"
    using assms by (rule reachable_consistent)
  have step: "single_step s =
     (if isl (impulse_term s 0) \<and> 2 \<le> Nx s then Inl ValueError else Inr (stepped s))"
    using c by (rule consistent_single_step)
  have returns: "\<exists>s'. single_step s = Inr s'" if "length (force_vals s) = nat (num_force_points s)"
  proof -
    have "\<not> isl (impulse_term s 0)"
      using that consistent_shape(7) [OF c] by (simp add: impulse_term_isl)
    then show ?thesis
      by (simp add: step)
  qed
  have result: "(\<forall>i. 1 \<le> i \<and> i < nat (Nx s) \<longrightarrow>
               (\<exists>imp. impulse_term s (x_mesh s ! i) = Inr imp \<and>
                  height s' ! i =
                    - (height_nm1 s ! i) + 2 * height_n s ! i
                    + C2 s * (height_n s ! (i - 1) - 2 * height_n s ! i + height_n s ! (i + 1))
                    + (dt s)\<^sup>2 * imp)) \<and>
            height s' ! 0 = 0 \<and> height s' ! nat (Nx s) = 0 \<and>
            height_nm1 s' = height_n s \<and> height_n s' = height s' \<and>
            t s' = t s + dt s \<and> n s' = n s + 1" if s': "single_step s = Inr s'" for s'
  proof -
    have eq: "s' = stepped s" and ok: "\<not> (isl (impulse_term s 0) \<and> 2 \<le> Nx s)"
      using s' step by (simp_all split: if_splits)
    have interior: "\<exists>imp. impulse_term s (x_mesh s ! i) = Inr imp \<and>
                  height s' ! i =
                    - (height_nm1 s ! i) + 2 * height_n s ! i
                    + C2 s * (height_n s ! (i - 1) - 2 * height_n s ! i + height_n s ! (i + 1))
                    + (dt s)\<^sup>2 * imp" if i: "1 \<le> i \<and> i < nat (Nx s)" for i
    proof -
      have "2 \<le> Nx s" using i by linarith
      then have "\<not> isl (impulse_term s 0)" using ok by simp
      then have "\<not> isl (impulse_term s (x_mesh s ! i))"
        by (simp add: impulse_term_isl)
      then have imp: "impulse_term s (x_mesh s ! i) = Inr (impulse_at s i)"
        by (simp add: impulse_at_def)
      have "i < Suc (nat (Nx s))" using i by simp
      then have "stepped_height s ! i =
          (if i = 0 \<or> i = nat (Nx s) then 0 else leapfrog s (impulse_at s i) i)"
        unfolding stepped_height_def by (simp only: nth_map_upt) simp
      then have "height s' ! i = leapfrog s (impulse_at s i) i"
        using i by (simp add: eq stepped_def)
      then show ?thesis
        using imp by (simp add: leapfrog_def)
    qed
    show ?thesis
      using interior stepped_height_boundary [of s] by (simp add: eq stepped_def)
  qed
  show ?thesis
    using returns result by blast
qed

theorem single_step_update_witness:
  "reachable example_config example_forced \<and>
   length (force_vals example_forced) = nat (num_force_points example_forced) \<and>
   single_step example_forced = Inr (stepped example_forced) \<and>
   (1::nat) \<le> 1 \<and> 1 < nat (Nx example_forced) \<and>
   impulse_term example_forced (x_mesh example_forced ! 1) = Inr (1 - exp (- (1 / 2))) \<and>
   height (stepped example_forced) ! 1 = 1 - exp (- (1 / 2)) \<and>
   height (stepped example_forced) ! 0 = 0 \<and> height (stepped example_forced) ! 4 = 0 \<and>
   height_nm1 (stepped example_forced) = height_n example_forced \<and>
   height_n (stepped example_forced) = height (stepped example_forced) \<and>
   t (stepped example_forced) = 1 \<and> n (stepped example_forced) = 1"
  using single_step_update [OF reachable_example_forced] reachable_example_forced
    single_step_example_forced
  by (simp add: stepped_example_forced example_forced_eq impulse_term_def np_binop_def)

text \<open>
  C4: for a configuration that meets the constraints, \<open>reset\<close> returns from every state
  of a run and leaves the rest configuration, which depends on the configuration alone:
  \<open>height\<close>, \<open>height_n\<close> and \<open>height_nm1\<close> zero at each of the \<open>Nx + 1\<close> mesh points,
  \<open>force_vals\<close> zero, \<open>t = 0\<close> and \<open>n = 0\<close>. Hence \<open>reset\<close> on the rest configuration
  changes nothing, and two calls in a row leave what one call leaves.
\<close>

theorem reset_rest:
  assumes "valid_config config" and "reachable config s"
  shows "reset s = Inr (rest_state config) \<and>
         height (rest_state config) = replicate (Suc (nat (Nx s))) 0 \<and>
         height_n (rest_state config) = replicate (Suc (nat (Nx s))) 0 \<and>
         height_nm1 (rest_state config) = replicate (Suc (nat (Nx s))) 0 \<and>
         force_vals (rest_state config) = replicate (nat (num_force_points s)) 0 \<and>
         t (rest_state config) = 0 \<and> n (rest_state config) = 0 \<and>
         reset (rest_state config) = Inr (rest_state config) \<and>
         bindE (reset s) reset = reset s"
proof -
  have c: "consistent config s"
    using assms(2) by (rule reachable_consistent)
  have r: "reset s = Inr (rest_state config)"
    using c by (rule consistent_reset)
  have "consistent config (rest_state config)"
    using assms(1) by (intro consistent_rest_state valid_constructible)
  then have rr: "reset (rest_state config) = Inr (rest_state config)"
    by (rule consistent_reset)
  have "Nx s = cfg_num_lattice_points config" "num_force_points s = cfg_num_force_points config"
    using c by (simp_all add: consistent_def same_static_def rest_state_def)
  then show ?thesis
    using r rr by (simp add: rest_state_def del: replicate_Suc)
qed

theorem reset_rest_witness:
  "valid_config example_config \<and> reachable example_config (stepped example_forced) \<and>
   height (stepped example_forced) = [0, 1 - exp (- (1 / 2)), 0, exp (- (1 / 2)) - 1, 0] \<and>
   reset (stepped example_forced) = Inr (rest_state example_config) \<and>
   height (rest_state example_config) = [0, 0, 0, 0, 0] \<and>
   height_n (rest_state example_config) = [0, 0, 0, 0, 0] \<and>
   height_nm1 (rest_state example_config) = [0, 0, 0, 0, 0] \<and>
   force_vals (rest_state example_config) = [0, 0, 0] \<and>
   reset (rest_state example_config) = Inr (rest_state example_config)"
  using reset_rest [OF valid_example reachable_example_stepped] valid_example
    reachable_example_stepped
  by (simp add: stepped_example_forced eval_nat_numeral)

text \<open>
  C7: in a state of a run of a configuration that meets the constraints, with one entry of
  \<open>force_vals\<close> for each force point, \<open>impulse_term\<close> at any position \<open>x\<close> returns the sum
  over the force points \<open>j\<close> of \<open>force_vals[j] * exp (- 0.5 (x - force_site j)\<^sup>2 / (force_width L))\<close>:
  a function of \<open>force_vals\<close> and the configuration. The force locations of the object are
  the interior samples \<open>(j + 1) L / (num_force_points + 1)\<close> of \<open>num_force_points + 2\<close>
  evenly spaced points over \<open>[0, L]\<close>, each strictly between 0 and \<open>L\<close>.
\<close>

theorem impulse_formula:
  assumes "valid_config config" and "reachable config s"
    and "length (force_vals s) = nat (cfg_num_force_points config)"
  shows "impulse_term s x =
           Inr (\<Sum>j<nat (cfg_num_force_points config).
                  force_vals s ! j *
                  exp (- 0.5 * (x - force_site config j)\<^sup>2 /
                       (cfg_force_width config * cfg_system_length config))) \<and>
         force_locations s = map (force_site config) [0..<nat (cfg_num_force_points config)] \<and>
         force_width s = cfg_force_width config * cfg_system_length config \<and>
         (\<forall>j<nat (cfg_num_force_points config).
            force_site config j =
              real (j + 1) * cfg_system_length config / real_of_int (cfg_num_force_points config + 1) \<and>
            0 < force_site config j \<and> force_site config j < cfg_system_length config)"
proof -
  have c: "consistent config s"
    using assms(2) by (rule reachable_consistent)
  have L: "0 < cfg_system_length config"
    using assms(1) by (simp add: valid_config_def)
  have "force_locations s = map (force_site config) [0..<nat (cfg_num_force_points config)]"
    "force_width s = cfg_force_width config * cfg_system_length config"
    using c by (simp_all add: consistent_def same_static_def rest_state_def)
  moreover have "force_site config j =
      real (j + 1) * cfg_system_length config / real_of_int (cfg_num_force_points config + 1)" for j
    by (simp add: force_site_def)
  ultimately show ?thesis
    using impulse_term_consistent [OF c assms(3)] force_site_inside [OF L] by simp
qed

theorem impulse_formula_witness:
  "valid_config example_config \<and> reachable example_config example_forced \<and>
   length (force_vals example_forced) = nat (cfg_num_force_points example_config) \<and>
   impulse_term example_forced 1 = Inr (1 - exp (- (1 / 2))) \<and>
   force_locations example_forced = [1, 2, 3] \<and> force_width example_forced = 4 \<and>
   (1::nat) < nat (cfg_num_force_points example_config) \<and>
   force_site example_config 1 = 2 \<and> 0 < force_site example_config 1 \<and>
   force_site example_config 1 < cfg_system_length example_config"
proof -
  have len: "length (force_vals example_forced) = nat (cfg_num_force_points example_config)"
    by (simp add: example_forced_eq example_config_def)
  have "impulse_term example_forced 1 = Inr (1 - exp (- (1 / 2)))"
    by (simp add: example_forced_eq impulse_term_def np_binop_def)
  moreover have "force_site example_config 1 = 2"
    "cfg_system_length example_config = 4" "nat (cfg_num_force_points example_config) = 3"
    by (simp_all add: example_config_def force_site_def)
  ultimately show ?thesis
    using impulse_formula [OF valid_example reachable_example_forced len, of 1] valid_example
      reachable_example_forced len
    by (simp add: example_forced_eq)
qed

text \<open>
  C8: for a configuration that meets the constraints and a forcing vector \<open>a\<close> with one
  entry for each force point, \<open>reset\<close>, \<open>take_in_action a\<close> and one \<open>single_step\<close> return,
  and so do they for the negated vector; the two \<open>height\<close> arrays are pointwise negatives
  of each other.
\<close>

theorem negated_forcing:
  assumes "valid_config config" and "reachable config s"
    and "length a = nat (cfg_num_force_points config)"
  shows "\<exists>s1 s2. forced_step s a = Inr s1 \<and> forced_step s (map uminus a) = Inr s2 \<and>
           height s2 = map uminus (height s1)"
proof -
  define r where "r = rest_state config"
  have c: "consistent config s"
    using assms(2) by (rule reachable_consistent)
  have reset: "reset s = Inr r"
    unfolding r_def using c by (rule consistent_reset)
  have cr: "consistent config r"
    unfolding r_def using assms(1) by (intro consistent_rest_state valid_constructible)
  have locs: "length (force_locations r) = nat (cfg_num_force_points config)"
    by (simp add: r_def rest_state_def)
  have step: "single_step (r\<lparr>force_vals := b\<rparr>) = Inr (stepped (r\<lparr>force_vals := b\<rparr>))"
    if "length b = nat (cfg_num_force_points config)" for b
  proof -
    have "consistent config (r\<lparr>force_vals := b\<rparr>)"
      using cr by (auto simp: consistent_def same_static_def)
    then have "single_step (r\<lparr>force_vals := b\<rparr>) =
        (if isl (impulse_term (r\<lparr>force_vals := b\<rparr>) 0) \<and> 2 \<le> Nx (r\<lparr>force_vals := b\<rparr>)
         then Inl ValueError else Inr (stepped (r\<lparr>force_vals := b\<rparr>)))"
      by (rule consistent_single_step)
    moreover have "\<not> isl (impulse_term (r\<lparr>force_vals := b\<rparr>) 0)"
      using that locs by (simp add: impulse_term_isl)
    ultimately show ?thesis by simp
  qed
  have s1: "forced_step s a = Inr (stepped (r\<lparr>force_vals := a\<rparr>))"
    using reset step [of a] assms(3) by (simp add: forced_step_def take_in_action_def)
  have s2: "forced_step s (map uminus a) = Inr (stepped (r\<lparr>force_vals := map uminus a\<rparr>))"
    using reset step [of "map uminus a"] assms(3)
    by (simp add: forced_step_def take_in_action_def)
  have "stepped_height (r\<lparr>force_vals := map uminus a\<rparr>) =
         map uminus (stepped_height (r\<lparr>force_vals := a\<rparr>))"
    using assms(3) locs by (intro stepped_height_negated) (simp_all add: r_def rest_state_def)
  then have "height (stepped (r\<lparr>force_vals := map uminus a\<rparr>)) =
      map uminus (height (stepped (r\<lparr>force_vals := a\<rparr>)))"
    by (simp add: stepped_def)
  then show ?thesis
    using s1 s2 by blast
qed


theorem negated_forcing_witness:
  "valid_config example_config \<and> reachable example_config (stepped example_forced) \<and>
   length [1, 0, - 1 :: real] = nat (cfg_num_force_points example_config) \<and>
   forced_step (stepped example_forced) [1, 0, - 1] = Inr (stepped example_forced) \<and>
   height (stepped example_forced) = [0, 1 - exp (- (1 / 2)), 0, exp (- (1 / 2)) - 1, 0] \<and>
   height (projr (forced_step (stepped example_forced) (map uminus [1, 0, - 1]))) =
     [0, exp (- (1 / 2)) - 1, 0, 1 - exp (- (1 / 2)), 0]"
proof -
  have len: "length [1, 0, - 1 :: real] = nat (cfg_num_force_points example_config)"
    by (simp add: example_config_def)
  show ?thesis
    using negated_forcing [OF valid_example reachable_example_stepped len] valid_example
      reachable_example_stepped len forced_step_example
    by (auto simp add: stepped_example_forced)
qed

text \<open>
  C5, as stated, fails: \<open>take_in_action\<close> returns for the vector \<open>[5]\<close> although the
  object has three force points; it stores the vector, and the next \<open>single_step\<close> returns
  too, with the one entry broadcast to the three force points.
\<close>

theorem short_action_accepted:
  "init example_config = Inr (rest_state example_config) \<and>
   num_force_points (rest_state example_config) = 3 \<and>
   take_in_action (rest_state example_config) [5] = Inr example_short \<and>
   force_vals example_short = [5] \<and>
   single_step example_short = Inr (stepped example_short) \<and>
   height (stepped example_short) =
     [0, 5 + (5 * exp (- (1 / 8)) + 5 * exp (- (1 / 2))), 10 * exp (- (1 / 8)) + 5,
      5 * exp (- (1 / 2)) + (5 * exp (- (1 / 8)) + 5), 0]"
  using init_example single_step_example_short height_stepped_example_short
  by (simp add: take_in_action_def example_short_def rest_state_def example_config_def)

text \<open>
  C5, amended: \<open>take_in_action\<close> returns for a vector of any length and stores it in
  \<open>force_vals\<close> as it is. In a state of a run, the next evaluation of \<open>impulse_term\<close>
  raises exactly when the length of the vector differs from \<open>num_force_points\<close> and neither
  of the two is 1, and the error is then numpy's \<open>ValueError\<close> for shapes that do not
  broadcast; a vector of length 1 is multiplied into every force point.
\<close>

theorem take_in_action_unchecked:
  assumes "reachable config s"
  shows "take_in_action s action = Inr (s\<lparr>force_vals := action\<rparr>) \<and>
         (isl (impulse_term (s\<lparr>force_vals := action\<rparr>) x) \<longleftrightarrow>
            length action \<noteq> nat (num_force_points s) \<and> length action \<noteq> 1 \<and>
            num_force_points s \<noteq> 1) \<and>
         (isl (impulse_term (s\<lparr>force_vals := action\<rparr>) x) \<longrightarrow>
            impulse_term (s\<lparr>force_vals := action\<rparr>) x = Inl ValueError) \<and>
         (length action = 1 \<and> num_force_points s \<noteq> 1 \<longrightarrow>
            impulse_term (s\<lparr>force_vals := action\<rparr>) x =
              Inr (\<Sum>loc\<leftarrow>force_locations s.
                     hd action * exp (- 0.5 * (x - loc)\<^sup>2 / force_width s)))"
proof -
  have c: "consistent config s"
    using assms by (rule reachable_consistent)
  have len: "length (force_locations s) = nat (num_force_points s)"
    and nonneg: "0 \<le> num_force_points s"
    using consistent_shape [OF c] by simp_all
  have one: "nat (num_force_points s) = Suc 0 \<longleftrightarrow> num_force_points s = 1"
    using nonneg by auto
  have "isl (impulse_term (s\<lparr>force_vals := action\<rparr>) x) \<longleftrightarrow>
            length action \<noteq> nat (num_force_points s) \<and> length action \<noteq> 1 \<and>
            num_force_points s \<noteq> 1"
    by (simp add: impulse_term_isl len one)
  moreover have "isl (impulse_term (s\<lparr>force_vals := action\<rparr>) x) \<longrightarrow>
            impulse_term (s\<lparr>force_vals := action\<rparr>) x = Inl ValueError"
    using impulse_term_error [of "s\<lparr>force_vals := action\<rparr>" x x] by simp
  moreover have "impulse_term (s\<lparr>force_vals := action\<rparr>) x =
              Inr (\<Sum>loc\<leftarrow>force_locations s.
                     hd action * exp (- 0.5 * (x - loc)\<^sup>2 / force_width s))"
    if "length action = 1" "num_force_points s \<noteq> 1"
    using that len one by (simp add: impulse_term_def np_binop_def comp_def)
  ultimately show ?thesis
    by (simp add: take_in_action_def)
qed

theorem take_in_action_unchecked_witness:
  "reachable example_config (rest_state example_config) \<and>
   take_in_action (rest_state example_config) [1, 2] =
     Inr ((rest_state example_config)\<lparr>force_vals := [1, 2]\<rparr>) \<and>
   length [1, 2 :: real] \<noteq> nat (num_force_points (rest_state example_config)) \<and>
   length [1, 2 :: real] \<noteq> 1 \<and> num_force_points (rest_state example_config) \<noteq> 1 \<and>
   isl (impulse_term ((rest_state example_config)\<lparr>force_vals := [1, 2]\<rparr>) 1) \<and>
   impulse_term ((rest_state example_config)\<lparr>force_vals := [1, 2]\<rparr>) 1 = Inl ValueError \<and>
   take_in_action (rest_state example_config) [5] = Inr example_short \<and>
   length [5 :: real] = 1 \<and>
   impulse_term example_short 1 = Inr (5 + (5 * exp (- (1 / 8)) + 5 * exp (- (1 / 2))))"
proof -
  have r: "reachable example_config (rest_state example_config)"
    using constructible_example by (rule reachable_rest_state)
  have nf: "num_force_points (rest_state example_config) = 3"
    by (simp add: rest_state_def example_config_def)
  have locs: "force_locations (rest_state example_config) = [1, 2, 3]"
    "force_width (rest_state example_config) = 4"
    by (simp_all add: rest_state_def example_config_def force_site_def upt_rec eval_nat_numeral)
  show ?thesis
    using take_in_action_unchecked [OF r, of "[1, 2]" 1]
      take_in_action_unchecked [OF r, of "[5]" 1] r nf
    by (simp add: example_short_def locs)
qed




text \<open>
  C3: in a state of a run, for any gradient and any quadrature that return on arrays of the
  length of the mesh, \<open>energy\<close> returns half of what the quadrature returns over the mesh
  for the density \<open>((height[i] - height_nm1[i]) / dt)\<^sup>2 + C\<^sup>2 dudx[i]\<^sup>2 + height[i]\<^sup>2\<close>, where
  \<open>dudx\<close> is the gradient of \<open>height\<close> over the mesh and \<open>C\<close> is the Courant number
  \<open>wave_speed * time_interval / (system_length / num_lattice_points)\<close>. The method is a
  function of the state and writes no field of it.
\<close>

theorem energy_value:
  assumes "reachable config s" and "gradient_like g" and "quadrature_like q"
  shows "\<exists>dudx integral.
           g (height s) (x_mesh s) = Inr dudx \<and> length dudx = Suc (nat (Nx s)) \<and>
           q (map (energy_density_at s dudx) [0..<Suc (nat (Nx s))]) (x_mesh s) = Inr integral \<and>
           energy g q s = Inr (integral / 2) \<and>
           C s = cfg_wave_speed config * cfg_time_interval config /
                   (cfg_system_length config / real_of_int (cfg_num_lattice_points config))"
proof -
  have c: "consistent config s"
    using assms(1) by (rule reachable_consistent)
  have len: "length (height s) = Suc (nat (Nx s))" "length (height_nm1 s) = length (height s)"
    "length (x_mesh s) = length (height s)" "2 \<le> length (height s)"
    using consistent_shape [OF c] by simp_all
  have courant: "C s = cfg_wave_speed config * cfg_time_interval config /
                   (cfg_system_length config / real_of_int (cfg_num_lattice_points config))"
    using c by (simp add: consistent_def same_static_def rest_state_def)
  obtain dudx integral where "g (height s) (x_mesh s) = Inr dudx"
    "length dudx = length (height s)"
    "q (map (energy_density_at s dudx) [0..<length (height s)]) (x_mesh s) = Inr integral"
    "energy g q s = Inr (integral / 2)"
    using energy_eq [OF len(4) len(2) len(3) assms(2) assms(3)] by blast
  then show ?thesis
    using courant len(1) by auto
qed

theorem energy_value_witness:
  "reachable example_config (stepped example_forced) \<and> gradient_like gradient_model \<and>
   quadrature_like simpson_model \<and>
   height (stepped example_forced) = [0, 1 - exp (- (1 / 2)), 0, exp (- (1 / 2)) - 1, 0] \<and>
   gradient_model (height (stepped example_forced)) (x_mesh (stepped example_forced)) =
     Inr [1 - exp (- (1 / 2)), 0, exp (- (1 / 2)) - 1, 0, 1 - exp (- (1 / 2))] \<and>
   energy gradient_model simpson_model (stepped example_forced) =
     Inr (10 * (1 - exp (- (1 / 2)))\<^sup>2 / 3) \<and>
   C (stepped example_forced) = 1"
proof -
  obtain dudx integral where
    d: "gradient_model (height (stepped example_forced)) (x_mesh (stepped example_forced)) = Inr dudx"
    and i: "simpson_model
        (map (energy_density_at (stepped example_forced) dudx)
           [0..<Suc (nat (Nx (stepped example_forced)))])
        (x_mesh (stepped example_forced)) = Inr integral"
    and e: "energy gradient_model simpson_model (stepped example_forced) = Inr (integral / 2)"
    using energy_value [OF reachable_example_stepped gradient_like_model quadrature_like_model]
    by blast
  have dudx: "dudx = [1 - exp (- (1 / 2)), 0, exp (- (1 / 2)) - 1, 0, 1 - exp (- (1 / 2))]"
    using d gradient_example by simp
  have five: "Suc (nat (Nx (stepped example_forced))) = 5"
    "x_mesh (stepped example_forced) = [0, 1, 2, 3, 4]"
    by (simp_all add: stepped_example_forced)
  have "integral = 20 * (1 - exp (- (1 / 2)))\<^sup>2 / 3"
    using i unfolding dudx five density_example simpson_example by simp
  then show ?thesis
    using e gradient_example reachable_example_stepped gradient_like_model quadrature_like_model
    by (simp add: stepped_example_forced)
qed

text \<open>
  C9: two instances are constructed from one configuration, in one heap or in two, and
  each is driven by its caller, who also makes arrays, writes into the arrays it has passed
  and calls the other instance. If the two instances receive the same sequence of
  \<open>take_in_action\<close> and \<open>single_step\<close> calls, with the same contents of the vector at each
  \<open>take_in_action\<close>, then they return the same \<open>get_observation\<close> array after every
  call, and they raise at the same call if one of them raises.
\<close>

theorem same_calls_same_observations:
  assumes "start_world config h1 = Inr w1" and "start_world config h2 = Inr w2"
    and "calls_of p (run_events w1 evs1) = calls_of q (run_events w2 evs2)"
  shows "observed_by p (run_events w1 evs1) = observed_by q (run_events w2 evs2)"
proof -
  have "observed_by p (run_events w1 evs1) =
      observations (rest_state config) (calls_of p (run_events w1 evs1))"
    using run_events_refines [of config w1 p evs1] start_world_ok [OF assms(1)] by simp
  moreover have "observed_by q (run_events w2 evs2) =
      observations (rest_state config) (calls_of q (run_events w2 evs2))"
    using run_events_refines [of config w2 q evs2] start_world_ok [OF assms(2)] by simp
  ultimately show ?thesis
    using assms(3) by simp
qed

theorem same_calls_same_observations_witness:
  "start_world example_config empty_heap = Inr example_world \<and>
   calls_of First (run_events example_world example_events) =
     [Take_in_action [1, 0, - 1], Single_step] \<and>
   calls_of Second (run_events example_world example_events) =
     [Take_in_action [1, 0, - 1], Single_step] \<and>
   observed_by First (run_events example_world example_events) =
   observed_by Second (run_events example_world example_events) \<and>
   observed_by First (run_events example_world example_events) =
     [Inr [ [ [0, 0, 0], [0, 0, 0], [0, 0, 0], [0, 0, 0], [0, 0, 0] ] ],
      Inr [ [ [0, 0, 0], [1 - exp (- (1 / 2)), 1 - exp (- (1 / 2)), 0],
            [0, 0, 0], [exp (- (1 / 2)) - 1, exp (- (1 / 2)) - 1, 0],
            [0, 0, 0] ] ] ]"
proof -
  have calls: "calls_of First (run_events example_world example_events) =
      calls_of Second (run_events example_world example_events)"
    by (simp add: run_example calls_of_def)
  show ?thesis
    using same_calls_same_observations [OF start_example start_example calls] start_example
    by (simp add: run_example calls_of_def observed_by_def)
qed

end
